theory Spec2Isabelle
  imports Complex_Main
begin

section \<open>Data model\<close>

text \<open>
  The wake-cycle controller (src/agent/loop.ts), the survival economics engine
  (src/survival/economics.ts) and the Anthropic translation of the inference gateway
  (the inference client that follows the loop in the same source file) are embedded as HOL
  functions.

  Conventions of the embedding:
  \<^item> a JavaScript number is a real number; rounding of doubles and \<open>NaN\<close> are outside the
    model, and \<open>Infinity\<close> is written out where the source produces it (see
    \<open>calculateRunway\<close>);
  \<^item> a point in time is a number of milliseconds since the epoch; an ISO-8601 string stored
    in the database is the \<open>nat\<close> it denotes, and an absent or empty key is \<open>None\<close>;
  \<^item> a numeric string stored under a key is the number it denotes;
  \<^item> a JavaScript string is a \<open>string\<close>, its characters standing for the code units that
    \<open>slice\<close> counts; \<open>String.prototype.trim\<close>, whose white space reaches beyond the
    characters of \<open>string\<close>, belongs to the runtime and is a parameter;
  \<^item> a value produced by \<open>JSON.parse\<close> is a \<open>json\<close> tree; \<open>JSON.parse\<close> and
    \<open>JSON.stringify\<close> themselves belong to the runtime and are parameters.
\<close>

datatype json =
    JNull
  | JBool bool
  | JNum real
  | JStr string
  | JArr "json list"
  | JObj "(string \<times> json) list"

datatype SurvivalTier = Normal | LowCompute | Critical | Dead

datatype AgentState = Waking | Running | StateLowCompute | StateCritical | Sleeping | StateDead

record ToolCallResult =
  tcr_id :: string
  tcr_name :: string
  tcr_arguments :: json
  tcr_result :: string
  tcr_durationMs :: nat
  tcr_error :: "string option"

record TokenUsage =
  promptTokens :: real
  completionTokens :: real
  totalTokens :: real

text \<open>
  An \<open>AgentTurn\<close> without its \<open>input\<close> and \<open>inputSource\<close> fields: the text handed to the
  backend is not modelled.
\<close>

record AgentTurn =
  turn_id :: string
  turn_timestamp :: nat
  turn_state :: AgentState
  thinking :: string
  toolCalls :: "ToolCallResult list"
  tokenUsage :: TokenUsage
  costCents :: real

record EconomicsSnapshot =
  timestamp :: nat
  budgetCents :: real
  totalSpentCents :: real
  totalEarnedCents :: real
  balanceCents :: real
  burnRatePerHour :: real
  earnRatePerHour :: real
  earnBurnRatio :: real
  runwayHours :: real
  costPerTurn :: real
  turnsTotal :: nat
  uptimeHours :: real
  childTributeTotal :: real

text \<open>
  The persistent store, as far as the controller and the economics engine read and write
  it: the well-known keys of the key/value table, the agent state, the turn and tool-call
  tables and the snapshot history. \<open>world\<close> stands for everything else a tool can read or
  change.
\<close>

record 'w Database =
  kv_start_time :: "nat option"
  kv_sleep_until :: "nat option"
  kv_total_spent_cents :: "real option"
  kv_total_earned_cents :: "real option"
  kv_child_tribute_total_cents :: "real option"
  kv_turn_cost :: "(string \<times> real) list"
  kv_last_economics_snapshot :: "EconomicsSnapshot option"
  agent_state :: AgentState
  db_turns :: "AgentTurn list"
  db_tool_calls :: "(string \<times> ToolCallResult) list"
  db_economics_snapshots :: "EconomicsSnapshot list"
  world :: 'w

record AutomatonConfig =
  cfg_budgetCents :: real

record RunwayTiers =
  rt_normal :: real
  rt_low_compute :: real
  rt_critical :: real

record SpawnGate =
  canSpawn :: bool
  sg_balanceCents :: real
  ownMonthlyCost :: real
  childMonthlyCost :: real
  spawnThreshold :: real
  deficit :: real

section \<open>Survival economics engine\<close>

definition HOURS_PER_MONTH :: real where
  "HOURS_PER_MONTH = 720"

text \<open>
  Modelled from the spec: the constant \<open>RUNWAY_TIERS\<close> of src/types.ts, which is not among
  the sources; the spec gives the boundaries as normal above 72 hours, low_compute above 24
  and critical above 4. The functions below take the table as an argument.
\<close>

definition RUNWAY_TIERS :: RunwayTiers where
  "RUNWAY_TIERS = \<lparr> rt_normal = 72, rt_low_compute = 24, rt_critical = 4 \<rparr>"

definition getUptimeHours :: "nat \<Rightarrow> 'w Database \<Rightarrow> real" where
  "getUptimeHours now db =
     (case kv_start_time db of
        None \<Rightarrow> 0
      | Some startTime \<Rightarrow> max ((real now - real startTime) / (1000 * 60 * 60)) 0.001)"

definition getTotalSpent :: "'w Database \<Rightarrow> real" where
  "getTotalSpent db = (case kv_total_spent_cents db of None \<Rightarrow> 0 | Some v \<Rightarrow> v)"

definition getTotalEarned :: "'w Database \<Rightarrow> real" where
  "getTotalEarned db = (case kv_total_earned_cents db of None \<Rightarrow> 0 | Some v \<Rightarrow> v)"

definition getChildTributeTotal :: "'w Database \<Rightarrow> real" where
  "getChildTributeTotal db =
     (case kv_child_tribute_total_cents db of None \<Rightarrow> 0 | Some v \<Rightarrow> v)"

definition getTurnCount :: "'w Database \<Rightarrow> nat" where
  "getTurnCount db = length (db_turns db)"

definition calculateBurnRate :: "nat \<Rightarrow> 'w Database \<Rightarrow> real" where
  "calculateBurnRate now db =
     (let uptime = getUptimeHours now db in
      if uptime \<le> 0 then 0 else getTotalSpent db / uptime)"

definition calculateEarnRate :: "nat \<Rightarrow> 'w Database \<Rightarrow> real" where
  "calculateEarnRate now db =
     (let uptime = getUptimeHours now db in
      if uptime \<le> 0 then 0 else getTotalEarned db / uptime)"

text \<open>\<open>None\<close> is the source's \<open>Infinity\<close>.\<close>

definition calculateRunway :: "real \<Rightarrow> real \<Rightarrow> real option" where
  "calculateRunway balance burnRate =
     (if burnRate \<le> 0 then None else Some (balance / burnRate))"

definition getRunwayTier :: "RunwayTiers \<Rightarrow> real \<Rightarrow> SurvivalTier" where
  "getRunwayTier tiers runway =
     (if runway > rt_normal tiers then Normal
      else if runway > rt_low_compute tiers then LowCompute
      else if runway > rt_critical tiers then Critical
      else Dead)"

definition getEconomicsSnapshot ::
  "nat \<Rightarrow> 'w Database \<Rightarrow> AutomatonConfig \<Rightarrow> EconomicsSnapshot" where
  "getEconomicsSnapshot now db config =
     (let burnRate = calculateBurnRate now db;
          earnRate = calculateEarnRate now db;
          totalSpent = getTotalSpent db;
          totalEarned = getTotalEarned db;
          balance = cfg_budgetCents config - totalSpent + totalEarned;
          runway = calculateRunway (max balance 0) burnRate;
          turnCount = getTurnCount db
      in \<lparr> timestamp = now,
           budgetCents = cfg_budgetCents config,
           totalSpentCents = totalSpent,
           totalEarnedCents = totalEarned,
           balanceCents = max balance 0,
           burnRatePerHour = burnRate,
           earnRatePerHour = earnRate,
           earnBurnRatio = (if burnRate > 0 then earnRate / burnRate else 0),
           runwayHours = (case runway of None \<Rightarrow> 99999 | Some r \<Rightarrow> r),
           costPerTurn = (if turnCount > 0 then totalSpent / real turnCount else 0),
           turnsTotal = turnCount,
           uptimeHours = getUptimeHours now db,
           childTributeTotal = getChildTributeTotal db \<rparr>)"

text \<open>
  The \<open>reason\<close> text of the result, which formats the amounts, is left out; the default
  of one child is supplied by the caller.
\<close>

definition checkSpawnGate ::
  "nat \<Rightarrow> 'w Database \<Rightarrow> AutomatonConfig \<Rightarrow> real \<Rightarrow> SpawnGate" where
  "checkSpawnGate now db config numChildren =
     (let burnRate = calculateBurnRate now db;
          totalSpent = getTotalSpent db;
          totalEarned = getTotalEarned db;
          balance = max (cfg_budgetCents config - totalSpent + totalEarned) 0;
          own = burnRate * HOURS_PER_MONTH;
          child = own * 0.8;
          threshold = own + numChildren * child;
          d = max (threshold - balance) 0
      in if balance < threshold
         then \<lparr> canSpawn = False, sg_balanceCents = balance, ownMonthlyCost = own,
                childMonthlyCost = child, spawnThreshold = threshold, deficit = d \<rparr>
         else \<lparr> canSpawn = True, sg_balanceCents = balance, ownMonthlyCost = own,
                childMonthlyCost = child, spawnThreshold = threshold, deficit = 0 \<rparr>)"

definition shouldSleep :: "EconomicsSnapshot \<Rightarrow> real \<Rightarrow> bool" where
  "shouldSleep snapshot pendingTasks =
     (if pendingTasks > 0 then False
      else if earnBurnRatio snapshot \<ge> 0.5 then False
      else if runwayHours snapshot \<ge> 24 then False
      else True)"

text \<open>
  \<open>recordTurnCost\<close>: the cost is stored under the turn's key and added to the running
  total.
\<close>

definition recordTurnCost :: "'w Database \<Rightarrow> string \<Rightarrow> real \<Rightarrow> 'w Database" where
  "recordTurnCost db turnId cost =
     (let db1 = db\<lparr> kv_turn_cost := kv_turn_cost db @ [(turnId, cost)] \<rparr> in
      db1\<lparr> kv_total_spent_cents := Some (getTotalSpent db1 + cost) \<rparr>)"

subsection \<open>The order of the tiers\<close>

text \<open>
  \<open>tier_rank\<close> orders the tiers from \<open>Dead\<close> (0) to \<open>Normal\<close> (3): a higher rank is a safer
  tier. \<open>exceeds tiers r t\<close> says that the runway \<open>r\<close> is strictly above the lower bound of
  tier \<open>t\<close>; \<open>Dead\<close> has no lower bound.
\<close>

fun tier_rank :: "SurvivalTier \<Rightarrow> nat" where
  "tier_rank Dead = 0"
| "tier_rank Critical = 1"
| "tier_rank LowCompute = 2"
| "tier_rank Normal = 3"

fun exceeds :: "RunwayTiers \<Rightarrow> real \<Rightarrow> SurvivalTier \<Rightarrow> bool" where
  "exceeds tiers r Normal = (r > rt_normal tiers)"
| "exceeds tiers r LowCompute = (r > rt_low_compute tiers)"
| "exceeds tiers r Critical = (r > rt_critical tiers)"
| "exceeds tiers r Dead = True"

text \<open>The scenario of the spec: five hours of uptime, 500 cents spent, nothing earned.\<close>

definition scenario_db :: "unit Database" where
  "scenario_db =
     \<lparr> kv_start_time = Some 0, kv_sleep_until = None,
       kv_total_spent_cents = Some 500, kv_total_earned_cents = None,
       kv_child_tribute_total_cents = None, kv_turn_cost = [],
       kv_last_economics_snapshot = None, agent_state = Running,
       db_turns = [], db_tool_calls = [], db_economics_snapshots = [], world = () \<rparr>"

definition scenario_config :: AutomatonConfig where
  "scenario_config = \<lparr> cfg_budgetCents = 2000 \<rparr>"

definition scenario_now :: nat where
  "scenario_now = 18000000"

section \<open>Wake-cycle controller\<close>

text \<open>
  \<open>runAgentLoop\<close> talks to its surroundings through interfaces: the tool executor, the
  inference client, the clock, the identifier generator and the credit service. The part of
  the surroundings that is fixed for a wake session is the record \<open>Env\<close>; what one pass of
  the main loop observes is the record \<open>Iteration\<close>.

  \<open>executeTool\<close> (src/agent/tools.ts) and \<open>getSurvivalTier\<close> (src/conway/credits.ts)
  are not among the sources and are fields of \<open>Env\<close>. Assumptions on the interfaces,
  from the spec's sections 6 and 7: \<open>executeTool\<close> reports a failure in the \<open>error\<close> field
  of its result and does not throw; the persistence interface does not throw;
  \<open>inference.chat\<close> may throw. The inbox fold and the construction of the prompt only
  determine the text sent to the backend and are not modelled.
\<close>

record InferenceToolCall =
  tc_id :: string
  tc_name :: string
  tc_arguments :: string

record InferenceResponse =
  resp_content :: string
  resp_toolCalls :: "InferenceToolCall list option"
  resp_usage :: TokenUsage
  resp_finishReason :: string
  resp_costCents :: "real option"

record InferenceClientOptions =
  opt_defaultModel :: string
  opt_maxTokens :: nat
  opt_lowComputeModel :: "string option"

record InferenceClient =
  currentModel :: string
  maxTokens :: nat

record 'w Env =
  JSON_parse :: "string \<Rightarrow> json option"
  String_of :: "json \<Rightarrow> string"
  String_trim :: "string \<Rightarrow> string"
  executeTool :: "string \<Rightarrow> json \<Rightarrow> 'w Database \<Rightarrow> ToolCallResult \<times> 'w Database"
  OPENAI_API_KEY :: bool
  getSurvivalTier :: "real \<Rightarrow> SurvivalTier"
  env_RUNWAY_TIERS :: RunwayTiers
  env_config :: AutomatonConfig
  env_options :: InferenceClientOptions
  wake_now :: nat
  boot_turnId :: "nat \<Rightarrow> string"

text \<open>
  One pass of the main loop observes the clock (one reading stands for every \<open>Date.now()\<close>
  of the pass), the credit balance (0 when the query failed), a fresh turn identifier, and
  the answer of the backend: \<open>Inl\<close> when \<open>inference.chat\<close> threw.
\<close>

record Iteration =
  it_now :: nat
  it_creditsCents :: real
  it_turnId :: string
  it_response :: "string + InferenceResponse"

text \<open>
  The local variables of \<open>runAgentLoop\<close>, the store, and the inference client. Two further
  fields record the calls made on consumed interfaces, which the code never reads:
  \<open>exec_trace\<close> lists the calls of \<open>executeTool\<close>, \<open>turn_trace\<close> the turns handed to
  \<open>onTurnComplete\<close> (the turns of the main loop).
\<close>

record 'w LoopState =
  consecutiveErrors :: nat
  running :: bool
  turnsThisWake :: nat
  lastToolName :: string
  consecutiveSameTool :: nat
  calledOnceTools :: "string set"
  executedCommands :: "string set"
  database :: "'w Database"
  inference :: InferenceClient
  exec_trace :: "(string \<times> json) list"
  turn_trace :: "AgentTurn list"

definition MAX_TOOL_CALLS_PER_TURN :: nat where
  "MAX_TOOL_CALLS_PER_TURN = 10"

definition MAX_CONSECUTIVE_ERRORS :: nat where
  "MAX_CONSECUTIVE_ERRORS = 5"

definition MAX_TURNS_PER_WAKE :: nat where
  "MAX_TURNS_PER_WAKE = 20"

definition ONCE_PER_WAKE_TOOLS :: "string set" where
  "ONCE_PER_WAKE_TOOLS =
     {''check_economics'', ''check_credits'', ''scan_landscape'',
      ''heartbeat_ping'', ''check_health''}"

subsection \<open>JavaScript values\<close>

fun truthy :: "json \<Rightarrow> bool" where
  "truthy JNull = False"
| "truthy (JBool b) = b"
| "truthy (JNum n) = (n \<noteq> 0)"
| "truthy (JStr s) = (s \<noteq> [])"
| "truthy (JArr _) = True"
| "truthy (JObj _) = True"

text \<open>
  \<open>args.command\<close>: reading a property of \<open>null\<close> throws a TypeError; an object yields the
  value stored under the key, if any; every other value has no such property. The keys of
  an object produced by \<open>JSON.parse\<close> are distinct.
\<close>

fun get_command :: "json \<Rightarrow> string + json option" where
  "get_command JNull = Inl ''TypeError: Cannot read properties of null''"
| "get_command (JObj kvs) = Inr (map_of kvs ''command'')"
| "get_command _ = Inr None"

text \<open>\<open>arguments?.command\<close>: the optional chain yields \<open>undefined\<close> on \<open>null\<close>.\<close>

fun get_command_opt :: "json \<Rightarrow> json option" where
  "get_command_opt (JObj kvs) = map_of kvs ''command''"
| "get_command_opt _ = None"

definition truthy_opt :: "json option \<Rightarrow> bool" where
  "truthy_opt v = (case v of None \<Rightarrow> False | Some x \<Rightarrow> truthy x)"

text \<open>\<open>String(v)\<close>: a string is itself; the runtime's conversion of other values.\<close>

definition String_js :: "'w Env \<Rightarrow> json option \<Rightarrow> string" where
  "String_js env v =
     (case v of
        None \<Rightarrow> ''undefined''
      | Some (JStr s) \<Rightarrow> s
      | Some x \<Rightarrow> String_of env x)"

text \<open>\<open>s.includes(p)\<close>: \<open>p\<close> occurs in \<open>s\<close>.\<close>

fun str_includes :: "string \<Rightarrow> string \<Rightarrow> bool" where
  "str_includes [] p = (p = [])"
| "str_includes (c # cs) p = (take (length p) (c # cs) = p \<or> str_includes cs p)"

subsection \<open>The inference client's mode and the cost estimate\<close>

definition setLowComputeMode ::
  "InferenceClientOptions \<Rightarrow> bool \<Rightarrow> InferenceClient \<Rightarrow> InferenceClient" where
  "setLowComputeMode options enabled client =
     (if enabled
      then client\<lparr> currentModel :=
                      (case opt_lowComputeModel options of
                         None \<Rightarrow> ''gpt-4.1''
                       | Some m \<Rightarrow> if m = [] then ''gpt-4.1'' else m),
                    maxTokens := 4096 \<rparr>
      else client\<lparr> currentModel := opt_defaultModel options,
                    maxTokens := opt_maxTokens options \<rparr>)"

definition loop_pricing :: "(string \<times> real \<times> real) list" where
  "loop_pricing =
     [(''gpt-4o'', 250, 1000), (''gpt-4o-mini'', 15, 60), (''gpt-4.1'', 200, 800),
      (''gpt-4.1-mini'', 40, 160), (''gpt-4.1-nano'', 10, 40), (''gpt-5.2'', 200, 800),
      (''o1'', 1500, 6000), (''o3-mini'', 110, 440), (''o4-mini'', 110, 440),
      (''claude-sonnet-4-5'', 300, 1500), (''claude-haiku-4-5'', 100, 500)]"

definition estimateCostCents :: "TokenUsage \<Rightarrow> string \<Rightarrow> real" where
  "estimateCostCents usage model =
     (let p = (case map_of loop_pricing model of None \<Rightarrow> (250, 1000) | Some q \<Rightarrow> q);
          inputCost = (promptTokens usage / 1000000) * fst p;
          outputCost = (completionTokens usage / 1000000) * snd p
      in of_int \<lceil>(inputCost + outputCost) * 1.3\<rceil>)"

subsection \<open>The store's operations\<close>

definition setAgentState :: "AgentState \<Rightarrow> 'w LoopState \<Rightarrow> 'w LoopState" where
  "setAgentState a st = st\<lparr> database := (database st)\<lparr> agent_state := a \<rparr> \<rparr>"

definition setSleepUntil :: "nat option \<Rightarrow> 'w LoopState \<Rightarrow> 'w LoopState" where
  "setSleepUntil t st = st\<lparr> database := (database st)\<lparr> kv_sleep_until := t \<rparr> \<rparr>"

definition insertTurn :: "AgentTurn \<Rightarrow> 'w Database \<Rightarrow> 'w Database" where
  "insertTurn turn d = d\<lparr> db_turns := db_turns d @ [turn] \<rparr>"

definition insertToolCall :: "string \<Rightarrow> ToolCallResult \<Rightarrow> 'w Database \<Rightarrow> 'w Database" where
  "insertToolCall turnId tc d = d\<lparr> db_tool_calls := db_tool_calls d @ [(turnId, tc)] \<rparr>"

definition insertEconomicsSnapshot :: "EconomicsSnapshot \<Rightarrow> 'w Database \<Rightarrow> 'w Database" where
  "insertEconomicsSnapshot snap d =
     d\<lparr> db_economics_snapshots := db_economics_snapshots d @ [snap] \<rparr>"

subsection \<open>Start of a wake session and the bootstrap phase\<close>

text \<open>
  The local variables are initialised, the start time is stored once, the agent goes
  through \<open>waking\<close> to \<open>running\<close>, and a stale sleep timer is cleared. The inference client is
  handed in by the caller.
\<close>

definition initLoop :: "'w Env \<Rightarrow> 'w Database \<Rightarrow> InferenceClient \<Rightarrow> 'w LoopState" where
  "initLoop env d client =
     \<lparr> consecutiveErrors = 0,
       running = True,
       turnsThisWake = 0,
       lastToolName = [],
       consecutiveSameTool = 0,
       calledOnceTools = {},
       executedCommands = {},
       database = d\<lparr> kv_start_time :=
                         (case kv_start_time d of None \<Rightarrow> Some (wake_now env) | Some t \<Rightarrow> Some t),
                       agent_state := Running,
                       kv_sleep_until := None \<rparr>,
       inference = client,
       exec_trace = [],
       turn_trace = [] \<rparr>"

definition bootstrapSteps :: "(string \<times> json) list" where
  "bootstrapSteps =
     [(''check_economics'', JObj []),
      (''exec'', JObj [(''command'', JStr ''ls -la ~/ && uname -a && whoami && pwd'')]),
      (''exec'', JObj [(''command'', JStr
         (''which node && node --version && which git && git --version 2>/dev/null; '' @
          ''which python3 && python3 --version 2>/dev/null; '' @
          ''which curl && curl --version 2>/dev/null | head -1''))])]"

text \<open>
  One bootstrap step: the tool is executed without consulting the guards, a once-per-wake
  tool is marked as called, and the result is stored as a synthetic turn, which counts
  towards \<open>turnsThisWake\<close>. (The source wraps the step in a handler for exceptions; under the
  assumptions above none is raised.)
\<close>

definition bootstrapStep :: "'w Env \<Rightarrow> nat \<Rightarrow> string \<times> json \<Rightarrow> 'w LoopState \<Rightarrow> 'w LoopState" where
  "bootstrapStep env i step st =
     (let (result, d1) = executeTool env (fst step) (snd step) (database st);
          called = (if fst step \<in> ONCE_PER_WAKE_TOOLS
                    then insert (fst step) (calledOnceTools st) else calledOnceTools st);
          bootstrapTurn =
            \<lparr> turn_id = boot_turnId env i,
              turn_timestamp = wake_now env,
              turn_state = agent_state d1,
              thinking = ''Bootstrap phase: automatically executing '' @ fst step
                         @ '' to gather context.'',
              toolCalls = [result],
              tokenUsage = \<lparr> promptTokens = 0, completionTokens = 0, totalTokens = 0 \<rparr>,
              costCents = 0 \<rparr>;
          d2 = insertToolCall (turn_id bootstrapTurn) result (insertTurn bootstrapTurn d1)
      in st\<lparr> calledOnceTools := called,
             database := d2,
             exec_trace := exec_trace st @ [step],
             turnsThisWake := turnsThisWake st + 1 \<rparr>)"

fun bootstrapFrom :: "'w Env \<Rightarrow> nat \<Rightarrow> (string \<times> json) list \<Rightarrow> 'w LoopState \<Rightarrow> 'w LoopState" where
  "bootstrapFrom env i [] st = st"
| "bootstrapFrom env i (step # steps) st =
     bootstrapFrom env (Suc i) steps (bootstrapStep env i step st)"

definition bootstrap :: "'w Env \<Rightarrow> 'w LoopState \<Rightarrow> 'w LoopState" where
  "bootstrap env st = bootstrapFrom env 0 bootstrapSteps st"

subsection \<open>Executing the tool calls of a turn\<close>

text \<open>The arguments of a call: \<open>JSON.parse\<close>, with \<open>{}\<close> when it throws.\<close>

definition parseArgs :: "'w Env \<Rightarrow> string \<Rightarrow> json" where
  "parseArgs env raw = (case JSON_parse env raw of None \<Rightarrow> JObj [] | Some v \<Rightarrow> v)"

definition blockedOnce :: "InferenceToolCall \<Rightarrow> json \<Rightarrow> ToolCallResult" where
  "blockedOnce tc args =
     \<lparr> tcr_id = tc_id tc,
       tcr_name = tc_name tc,
       tcr_arguments = args,
       tcr_result = ''BLOCKED: '' @ tc_name tc @ '' already called this wake cycle. '' @
         ''Use a different tool. Productive tools: exec (run shell commands), '' @
         ''write_file, read_file. Build something or sleep.'',
       tcr_durationMs = 0,
       tcr_error = None \<rparr>"

definition blockedExec :: "InferenceToolCall \<Rightarrow> json \<Rightarrow> string \<Rightarrow> ToolCallResult" where
  "blockedExec tc args cmdKey =
     \<lparr> tcr_id = tc_id tc,
       tcr_name = tc_name tc,
       tcr_arguments = args,
       tcr_result = ''BLOCKED: You already ran this exact command this wake cycle and it '' @
         (if str_includes cmdKey ''curl'' then ''failed or returned empty''
          else ''was already executed'') @
         ''. Try a COMPLETELY DIFFERENT command or tool. Do not retry. Suggestions: '' @
         ''write_file to create a service, exec with a different command, or sleep if '' @
         ''you have nothing else to do.'',
       tcr_durationMs = 0,
       tcr_error = None \<rparr>"

text \<open>
  The call of \<open>executeTool\<close> and what follows it in the body of the loop: the command of an
  \<open>exec\<close> is remembered, a once-per-wake tool is marked, the identifier of the result is
  overridden, the result is pushed and the call is counted.
\<close>

definition runTool ::
  "'w Env \<Rightarrow> InferenceToolCall \<Rightarrow> json \<Rightarrow> json option \<Rightarrow>
   'w LoopState \<times> ToolCallResult list \<times> nat \<Rightarrow> 'w LoopState \<times> ToolCallResult list \<times> nat" where
  "runTool env tc args command acc =
     (case acc of (st, results, callCount) \<Rightarrow>
        (let (result, d1) = executeTool env (tc_name tc) args (database st);
             executed = (if tc_name tc = ''exec'' \<and> truthy_opt command
                         then insert (String_trim env (String_js env command)) (executedCommands st)
                         else executedCommands st);
             called = (if tc_name tc \<in> ONCE_PER_WAKE_TOOLS
                       then insert (tc_name tc) (calledOnceTools st)
                       else calledOnceTools st)
         in (st\<lparr> calledOnceTools := called,
                 executedCommands := executed,
                 database := d1,
                 exec_trace := exec_trace st @ [(tc_name tc, args)] \<rparr>,
             results @ [result\<lparr> tcr_id := tc_id tc \<rparr>],
             callCount + 1)))"

text \<open>
  The body of the loop over the requested calls, after the test of the cap. \<open>Inl\<close> is an
  exception, thrown by \<open>args.command\<close> when the arguments of an \<open>exec\<close> parse to \<open>null\<close>: it
  carries the state reached, since nothing is rolled back.
\<close>

definition handleToolCall ::
  "'w Env \<Rightarrow> InferenceToolCall \<Rightarrow> 'w LoopState \<times> ToolCallResult list \<times> nat \<Rightarrow>
   (string \<times> 'w LoopState) + ('w LoopState \<times> ToolCallResult list \<times> nat)" where
  "handleToolCall env tc acc =
     (case acc of (st, results, callCount) \<Rightarrow>
        (let args = parseArgs env (tc_arguments tc) in
         if tc_name tc \<in> ONCE_PER_WAKE_TOOLS \<and> tc_name tc \<in> calledOnceTools st
         then Inr (st, results @ [blockedOnce tc args], callCount + 1)
         else if tc_name tc = ''exec''
         then (case get_command args of
                 Inl e \<Rightarrow> Inl (e, st)
               | Inr command \<Rightarrow>
                   if truthy_opt command
                   then (let cmdKey = String_trim env (String_js env command) in
                         if cmdKey \<in> executedCommands st
                         then Inr (st, results @ [blockedExec tc args cmdKey], callCount + 1)
                         else Inr (runTool env tc args command acc))
                   else Inr (runTool env tc args command acc))
         else Inr (runTool env tc args None acc)))"

text \<open>The loop over the requested calls, with the cap tested before every call.\<close>

fun toolLoop ::
  "'w Env \<Rightarrow> InferenceToolCall list \<Rightarrow> 'w LoopState \<times> ToolCallResult list \<times> nat \<Rightarrow>
   (string \<times> 'w LoopState) + ('w LoopState \<times> ToolCallResult list \<times> nat)" where
  "toolLoop env [] acc = Inr acc"
| "toolLoop env (tc # tcs) acc =
     (if snd (snd acc) \<ge> MAX_TOOL_CALLS_PER_TURN then Inr acc
      else case handleToolCall env tc acc of
             Inl ex \<Rightarrow> Inl ex
           | Inr acc' \<Rightarrow> toolLoop env tcs acc')"

text \<open>
  The calls of a response: the loop runs when \<open>response.toolCalls\<close> is present and not
  empty, from no results and a count of 0. The result is the state and \<open>turn.toolCalls\<close>.
\<close>

definition executeToolCalls ::
  "'w Env \<Rightarrow> InferenceResponse \<Rightarrow> 'w LoopState \<Rightarrow>
   (string \<times> 'w LoopState) + ('w LoopState \<times> ToolCallResult list)" where
  "executeToolCalls env response st =
     (case resp_toolCalls response of
        None \<Rightarrow> Inr (st, [])
      | Some tcs \<Rightarrow>
          if length tcs > 0
          then (case toolLoop env tcs (st, [], 0) of
                  Inl ex \<Rightarrow> Inl ex
                | Inr (st', results, callCount) \<Rightarrow> Inr (st', results))
          else Inr (st, []))"

subsection \<open>One pass of the main loop\<close>

text \<open>
  The result of a part of the \<open>try\<close> block: \<open>Break\<close> leaves the loop, \<open>Continue\<close> goes on
  with the next statement.
\<close>

datatype 'a flow = Break 'a | Continue 'a

text \<open>
  The head of the pass: the sleep timer, the survival tier and the mode of the inference
  client.
\<close>

definition currentTier :: "'w Env \<Rightarrow> Iteration \<Rightarrow> 'w LoopState \<Rightarrow> SurvivalTier" where
  "currentTier env it st =
     (if OPENAI_API_KEY env
      then getRunwayTier (env_RUNWAY_TIERS env)
             (runwayHours (getEconomicsSnapshot (it_now it) (database st) (env_config env)))
      else getSurvivalTier env (it_creditsCents it))"

definition applyTier :: "'w Env \<Rightarrow> SurvivalTier \<Rightarrow> 'w LoopState \<Rightarrow> 'w LoopState flow" where
  "applyTier env tier st =
     (if tier = Dead
      then Break ((setAgentState StateDead st)\<lparr> running := False \<rparr>)
      else if tier = Critical
      then Continue ((setAgentState StateCritical st)
             \<lparr> inference := setLowComputeMode (env_options env) True (inference st) \<rparr>)
      else if tier = LowCompute
      then Continue ((setAgentState StateLowCompute st)
             \<lparr> inference := setLowComputeMode (env_options env) True (inference st) \<rparr>)
      else Continue
             ((if agent_state (database st) \<noteq> Running then setAgentState Running st else st)
              \<lparr> inference := setLowComputeMode (env_options env) False (inference st) \<rparr>))"

definition beforeInference :: "'w Env \<Rightarrow> Iteration \<Rightarrow> 'w LoopState \<Rightarrow> 'w LoopState flow" where
  "beforeInference env it st =
     (case kv_sleep_until (database st) of
        Some sleepUntil \<Rightarrow>
          if sleepUntil > it_now it then Break (st\<lparr> running := False \<rparr>)
          else applyTier env (currentTier env it st) st
      | None \<Rightarrow> applyTier env (currentTier env it st) st)"

definition newTurn :: "Iteration \<Rightarrow> InferenceResponse \<Rightarrow> 'w LoopState \<Rightarrow> AgentTurn" where
  "newTurn it response st =
     \<lparr> turn_id = it_turnId it,
       turn_timestamp = it_now it,
       turn_state = agent_state (database st),
       thinking = resp_content response,
       toolCalls = [],
       tokenUsage = resp_usage response,
       costCents = estimateCostCents (resp_usage response) (currentModel (inference st)) \<rparr>"

text \<open>
  The turn and its results are stored, its cost is recorded (the figure of the backend,
  when there is one, before the estimate), every fifth turn a snapshot is stored, the turn
  is handed to \<open>onTurnComplete\<close>, and \<open>turnsThisWake\<close> is incremented.
\<close>

definition persistTurn ::
  "'w Env \<Rightarrow> Iteration \<Rightarrow> InferenceResponse \<Rightarrow> AgentTurn \<Rightarrow> 'w LoopState \<Rightarrow> 'w LoopState" where
  "persistTurn env it response turn st =
     (let d1 = fold (insertToolCall (turn_id turn)) (toolCalls turn)
                 (insertTurn turn (database st));
          actualCost = (case resp_costCents response of None \<Rightarrow> costCents turn | Some c \<Rightarrow> c);
          d2 = recordTurnCost d1 (turn_id turn) actualCost;
          d3 = (if getTurnCount d2 mod 5 = 0
                then (let snapshot = getEconomicsSnapshot (it_now it) d2 (env_config env) in
                      (insertEconomicsSnapshot snapshot d2)
                        \<lparr> kv_last_economics_snapshot := Some snapshot \<rparr>)
                else d2)
      in st\<lparr> database := d3,
             turn_trace := turn_trace st @ [turn],
             turnsThisWake := turnsThisWake st + 1 \<rparr>)"

text \<open>
  The fingerprint of a result: the name of the tool, and for \<open>exec\<close> with a command the
  first 80 characters of the command as well.
\<close>

definition fingerprint :: "'w Env \<Rightarrow> ToolCallResult \<Rightarrow> string" where
  "fingerprint env tc0 =
     (if tcr_name tc0 = ''exec'' \<and> truthy_opt (get_command_opt (tcr_arguments tc0))
      then ''exec:'' @ take 80 (String_js env (get_command_opt (tcr_arguments tc0)))
      else tcr_name tc0)"

definition detectStuck :: "'w Env \<Rightarrow> AgentTurn \<Rightarrow> 'w LoopState \<Rightarrow> 'w LoopState" where
  "detectStuck env turn st =
     (if length (toolCalls turn) = 1
      then (let fp = fingerprint env (hd (toolCalls turn)) in
            if fp = lastToolName st
            then st\<lparr> consecutiveSameTool := consecutiveSameTool st + 1 \<rparr>
            else st\<lparr> consecutiveSameTool := 1, lastToolName := fp \<rparr>)
      else if length (toolCalls turn) > 1
      then st\<lparr> consecutiveSameTool := 0, lastToolName := [] \<rparr>
      else st)"

text \<open>A call of the sleep tool whose \<open>error\<close> is absent or empty.\<close>

definition sleepRequested :: "AgentTurn \<Rightarrow> bool" where
  "sleepRequested turn =
     (case find (\<lambda>tc. tcr_name tc = ''sleep'') (toolCalls turn) of
        None \<Rightarrow> False
      | Some sleepTool \<Rightarrow> (case tcr_error sleepTool of None \<Rightarrow> True | Some e \<Rightarrow> e = []))"

definition forceSleep :: "nat \<Rightarrow> 'w LoopState \<Rightarrow> 'w LoopState" where
  "forceSleep deadline st =
     (setAgentState Sleeping (setSleepUntil (Some deadline) st))\<lparr> running := False \<rparr>"

text \<open>
  The conditions that end the session, in the order of the source. The first three leave
  the loop; the last one only clears \<open>running\<close>, and like a pass that ends none of them it
  reaches the reset of \<open>consecutiveErrors\<close>.
\<close>

definition decideSleep ::
  "Iteration \<Rightarrow> InferenceResponse \<Rightarrow> AgentTurn \<Rightarrow> 'w LoopState \<Rightarrow> 'w LoopState" where
  "decideSleep it response turn st =
     (if consecutiveSameTool st \<ge> 3
      then forceSleep (it_now it + 600000) st
      else if sleepRequested turn
      then (setAgentState Sleeping st)\<lparr> running := False \<rparr>
      else if turnsThisWake st \<ge> MAX_TURNS_PER_WAKE
      then forceSleep (it_now it + 600000) st
      else (if (case resp_toolCalls response of None \<Rightarrow> True | Some tcs \<Rightarrow> length tcs = 0)
               \<and> resp_finishReason response = ''stop''
            then forceSleep (it_now it + 300000) st
            else st)\<lparr> consecutiveErrors := 0 \<rparr>)"

text \<open>
  The \<open>try\<close> block. \<open>Inl\<close> is an exception together with the state in which it was thrown.
\<close>

definition tryBody ::
  "'w Env \<Rightarrow> Iteration \<Rightarrow> 'w LoopState \<Rightarrow> (string \<times> 'w LoopState) + 'w LoopState" where
  "tryBody env it st =
     (case beforeInference env it st of
        Break st1 \<Rightarrow> Inr st1
      | Continue st1 \<Rightarrow>
          (case it_response it of
             Inl e \<Rightarrow> Inl (e, st1)
           | Inr response \<Rightarrow>
               (case executeToolCalls env response st1 of
                  Inl ex \<Rightarrow> Inl ex
                | Inr (st2, results) \<Rightarrow>
                    (let turn = (newTurn it response st1)\<lparr> toolCalls := results \<rparr>;
                         st3 = persistTurn env it response turn st2;
                         st4 = detectStuck env turn st3
                     in Inr (decideSleep it response turn st4)))))"

text \<open>The \<open>catch\<close> block.\<close>

definition catchError :: "Iteration \<Rightarrow> 'w LoopState \<Rightarrow> 'w LoopState" where
  "catchError it st =
     (let st1 = st\<lparr> consecutiveErrors := consecutiveErrors st + 1 \<rparr> in
      if consecutiveErrors st1 \<ge> MAX_CONSECUTIVE_ERRORS
      then (setSleepUntil (Some (it_now it + 300000)) (setAgentState Sleeping st1))
             \<lparr> running := False \<rparr>
      else st1)"

definition iteration :: "'w Env \<Rightarrow> Iteration \<Rightarrow> 'w LoopState \<Rightarrow> 'w LoopState" where
  "iteration env it st =
     (case tryBody env it st of
        Inr st' \<Rightarrow> st'
      | Inl (e, st') \<Rightarrow> catchError it st')"

text \<open>
  \<open>while (running)\<close>: every pass consumes one observation of the surroundings; the state
  after a finite list of observations is the state when the loop has stopped or the list is
  used up.
\<close>

fun mainLoop :: "'w Env \<Rightarrow> Iteration list \<Rightarrow> 'w LoopState \<Rightarrow> 'w LoopState" where
  "mainLoop env [] st = st"
| "mainLoop env (it # its) st =
     (if running st then mainLoop env its (iteration env it st) else st)"

definition runAgentLoop ::
  "'w Env \<Rightarrow> 'w Database \<Rightarrow> InferenceClient \<Rightarrow> Iteration list \<Rightarrow> 'w LoopState" where
  "runAgentLoop env d client its = mainLoop env its (bootstrap env (initLoop env d client))"

section \<open>Inference gateway: the Anthropic translation\<close>

text \<open>
  The request side (\<open>transformMessagesForAnthropic\<close>, \<open>parseToolArguments\<close>) and the
  response side of \<open>chatViaAnthropic\<close> after the HTTP exchange. \<open>JSON.parse\<close>,
  \<open>JSON.stringify\<close> and \<open>trim\<close> are arguments. A content block is a text block, a
  tool-use block (id, name, input) or a tool-result block (id of the call, content).
\<close>

datatype Role = RoleSystem | RoleUser | RoleAssistant | RoleTool

record ChatMessage =
  msg_role :: Role
  msg_content :: string
  msg_tool_calls :: "InferenceToolCall list option"
  msg_tool_call_id :: "string option"

datatype ContentBlock =
    TextBlock string
  | ToolUseBlock string string json
  | ToolResultBlock string string

datatype AnthropicContent = PlainContent string | BlockContent "ContentBlock list"

record AnthropicMessage =
  am_role :: string
  am_content :: AnthropicContent

record AnthropicResponse =
  ar_content :: "ContentBlock list"
  ar_stop_reason :: "string option"
  ar_input_tokens :: real
  ar_output_tokens :: real

text \<open>\<open>xs.join(sep)\<close>.\<close>

fun join :: "string \<Rightarrow> string list \<Rightarrow> string" where
  "join sep [] = []"
| "join sep [x] = x"
| "join sep (x # y # ys) = x @ sep @ join sep (y # ys)"

text \<open>
  A text that parses to an object is that object; any other parsed value is wrapped under
  \<open>value\<close>; a text that does not parse is wrapped under \<open>_raw\<close>.
\<close>

definition parseToolArguments :: "(string \<Rightarrow> json option) \<Rightarrow> string \<Rightarrow> json" where
  "parseToolArguments parse raw =
     (case parse raw of
        None \<Rightarrow> JObj [(''_raw'', JStr raw)]
      | Some parsed \<Rightarrow>
          (case parsed of
             JObj kvs \<Rightarrow> parsed
           | _ \<Rightarrow> JObj [(''value'', parsed)]))"

definition toolUseBlock :: "(string \<Rightarrow> json option) \<Rightarrow> InferenceToolCall \<Rightarrow> ContentBlock" where
  "toolUseBlock parse toolCall =
     ToolUseBlock (tc_id toolCall) (tc_name toolCall)
       (parseToolArguments parse (tc_arguments toolCall))"

text \<open>
  The content of an assistant message: its text, if not empty, then one tool-use block per
  requested call; a single empty text block when there is neither.
\<close>

definition assistantContent :: "(string \<Rightarrow> json option) \<Rightarrow> ChatMessage \<Rightarrow> ContentBlock list" where
  "assistantContent parse msg =
     (let content =
            (if msg_content msg \<noteq> [] then [TextBlock (msg_content msg)] else []) @
            map (toolUseBlock parse)
              (case msg_tool_calls msg of None \<Rightarrow> [] | Some tcs \<Rightarrow> tcs)
      in if length content = 0 then [TextBlock []] else content)"

definition toolResultContent :: "ChatMessage \<Rightarrow> ContentBlock list" where
  "toolResultContent msg =
     [ToolResultBlock
        (case msg_tool_call_id msg of
           None \<Rightarrow> ''unknown_tool_call''
         | Some i \<Rightarrow> if i = [] then ''unknown_tool_call'' else i)
        (msg_content msg)]"

text \<open>The loop over the messages, with the system parts and the translated messages.\<close>

fun transformLoop ::
  "(string \<Rightarrow> json option) \<Rightarrow> ChatMessage list \<Rightarrow> string list \<Rightarrow> AnthropicMessage list \<Rightarrow>
   string list \<times> AnthropicMessage list" where
  "transformLoop parse [] systemParts transformed = (systemParts, transformed)"
| "transformLoop parse (msg # msgs) systemParts transformed =
     (if msg_role msg = RoleSystem
      then transformLoop parse msgs
             (if msg_content msg \<noteq> [] then systemParts @ [msg_content msg] else systemParts)
             transformed
      else if msg_role msg = RoleUser
      then transformLoop parse msgs systemParts
             (transformed @ [\<lparr> am_role = ''user'', am_content = PlainContent (msg_content msg) \<rparr>])
      else if msg_role msg = RoleAssistant
      then transformLoop parse msgs systemParts
             (transformed @
              [\<lparr> am_role = ''assistant'', am_content = BlockContent (assistantContent parse msg) \<rparr>])
      else transformLoop parse msgs systemParts
             (transformed @
              [\<lparr> am_role = ''user'', am_content = BlockContent (toolResultContent msg) \<rparr>]))"

definition transformMessagesForAnthropic ::
  "(string \<Rightarrow> json option) \<Rightarrow> ChatMessage list \<Rightarrow> string option \<times> AnthropicMessage list" where
  "transformMessagesForAnthropic parse messages =
     (case transformLoop parse messages [] [] of
        (systemParts, transformed) \<Rightarrow>
          (if length systemParts > 0 then Some (join [CHR 0x0A, CHR 0x0A] systemParts) else None,
           transformed))"

definition normalizeAnthropicFinishReason :: "string option \<Rightarrow> string" where
  "normalizeAnthropicFinishReason reason =
     (case reason of
        None \<Rightarrow> ''stop''
      | Some r \<Rightarrow> if r = ''tool_use'' then ''tool_calls'' else r)"

fun isText :: "ContentBlock \<Rightarrow> bool" where
  "isText (TextBlock t) = True"
| "isText _ = False"

fun isToolUse :: "ContentBlock \<Rightarrow> bool" where
  "isToolUse (ToolUseBlock i n inp) = True"
| "isToolUse _ = False"

fun blockText :: "ContentBlock \<Rightarrow> string" where
  "blockText (TextBlock t) = t"
| "blockText _ = []"

text \<open>
  A tool-use block of the response becomes a normalized call whose arguments are the
  input, or \<open>{}\<close> when the input is falsy, serialized again.
\<close>

fun toolCallOfBlock :: "(json \<Rightarrow> string) \<Rightarrow> ContentBlock \<Rightarrow> InferenceToolCall" where
  "toolCallOfBlock stringify (ToolUseBlock i n inp) =
     \<lparr> tc_id = i, tc_name = n,
       tc_arguments = stringify (if truthy inp then inp else JObj []) \<rparr>"
| "toolCallOfBlock stringify _ = \<lparr> tc_id = [], tc_name = [], tc_arguments = stringify (JObj []) \<rparr>"

text \<open>
  The normalized response (without its \<open>id\<close> and \<open>model\<close>); \<open>Inl\<close> is the exception thrown
  when the response has neither text nor tool calls.
\<close>

definition normalizeAnthropicResponse ::
  "(string \<Rightarrow> string) \<Rightarrow> (json \<Rightarrow> string) \<Rightarrow> AnthropicResponse \<Rightarrow>
   string + InferenceResponse" where
  "normalizeAnthropicResponse trim stringify data =
     (let textBlocks = filter isText (ar_content data);
          toolUseBlocks = filter isToolUse (ar_content data);
          calls = (if length toolUseBlocks > 0
                   then Some (map (toolCallOfBlock stringify) toolUseBlocks) else None);
          textContent = trim (join [CHR 0x0A] (map blockText textBlocks))
      in if textContent = [] \<and> (case calls of None \<Rightarrow> True | Some cs \<Rightarrow> length cs = 0)
         then Inl ''No completion content returned from anthropic inference''
         else Inr \<lparr> resp_content = textContent,
                    resp_toolCalls = calls,
                    resp_usage = \<lparr> promptTokens = ar_input_tokens data,
                                    completionTokens = ar_output_tokens data,
                                    totalTokens = ar_input_tokens data + ar_output_tokens data \<rparr>,
                    resp_finishReason = normalizeAnthropicFinishReason (ar_stop_reason data),
                    resp_costCents = None \<rparr>)"

section \<open>Notions used to state the properties\<close>

text \<open>
  \<open>same_locals\<close>: two states agree on the counters and flags of the loop and on the turns
  handed out so far.
\<close>

definition same_locals :: "'w LoopState \<Rightarrow> 'w LoopState \<Rightarrow> bool" where
  "same_locals st st' =
     (consecutiveErrors st' = consecutiveErrors st \<and> running st' = running st \<and>
      turnsThisWake st' = turnsThisWake st \<and> lastToolName st' = lastToolName st \<and>
      consecutiveSameTool st' = consecutiveSameTool st \<and> turn_trace st' = turn_trace st)"

text \<open>The calls a response asks for.\<close>

definition requested :: "InferenceResponse \<Rightarrow> InferenceToolCall list" where
  "requested response = (case resp_toolCalls response of None \<Rightarrow> [] | Some tcs \<Rightarrow> tcs)"

text \<open>
  The turn a pass of the main loop completes: the turn handed to \<open>onTurnComplete\<close>, if the
  pass got that far.
\<close>

definition completedTurn :: "'w Env \<Rightarrow> Iteration \<Rightarrow> 'w LoopState \<Rightarrow> AgentTurn option" where
  "completedTurn env it st =
     (if length (turn_trace (iteration env it st)) = Suc (length (turn_trace st))
      then Some (last (turn_trace (iteration env it st))) else None)"

text \<open>A turn with exactly one result, whose fingerprint is \<open>f\<close>.\<close>

definition single_call :: "'w Env \<Rightarrow> AgentTurn \<Rightarrow> string \<Rightarrow> bool" where
  "single_call env t f =
     (length (toolCalls t) = 1 \<and> fingerprint env (hd (toolCalls t)) = f)"

text \<open>
  The number of turns at the head of a list that have exactly one result with the
  fingerprint \<open>f\<close>, and the length of the run of such turns that ends the turns of the
  main loop: \<open>trailing_matches env f ts = 3\<close> says that the last three turns each have
  exactly one result, with the fingerprint \<open>f\<close>.
\<close>

fun leading_matches :: "'w Env \<Rightarrow> string \<Rightarrow> AgentTurn list \<Rightarrow> nat" where
  "leading_matches env f [] = 0"
| "leading_matches env f (t # ts) =
     (if single_call env t f then Suc (leading_matches env f ts) else 0)"

definition trailing_matches :: "'w Env \<Rightarrow> string \<Rightarrow> AgentTurn list \<Rightarrow> nat" where
  "trailing_matches env f ts = leading_matches env f (rev ts)"

text \<open>
  The invariant of the repetition counter: a run of turns with one result of the
  fingerprint \<open>f\<close> at the end of the turns of the main loop is counted in full, with \<open>f\<close>
  remembered; the counter is below 3 while the loop runs; and such a run has at most three
  turns, the third of which has ended the session in \<open>sleeping\<close> with the deadline ten
  minutes after it.
\<close>

definition stuck_inv :: "'w Env \<Rightarrow> 'w LoopState \<Rightarrow> bool" where
  "stuck_inv env st =
     ((\<forall>f. trailing_matches env f (turn_trace st) \<ge> 1 \<longrightarrow>
            lastToolName st = f \<and>
            trailing_matches env f (turn_trace st) \<le> consecutiveSameTool st) \<and>
      (running st \<longrightarrow> consecutiveSameTool st < 3) \<and>
      (\<forall>f. trailing_matches env f (turn_trace st) \<le> 3 \<and>
           (trailing_matches env f (turn_trace st) = 3 \<longrightarrow>
              \<not> running st \<and> agent_state (database st) = Sleeping \<and>
              kv_sleep_until (database st)
                = Some (turn_timestamp (last (turn_trace st)) + 600000))))"

text \<open>The names of the tools executed so far, in the order of the calls.\<close>

definition executed_names :: "'w LoopState \<Rightarrow> string list" where
  "executed_names st = map fst (exec_trace st)"

text \<open>
  The invariant of the once-per-wake guard: a tool of the set has been executed at most
  once, and one that has been executed is marked as called.
\<close>

definition once_inv :: "'w LoopState \<Rightarrow> bool" where
  "once_inv st =
     (\<forall>n \<in> ONCE_PER_WAKE_TOOLS.
        count_list (executed_names st) n \<le> 1 \<and>
        (n \<in> set (executed_names st) \<longrightarrow> n \<in> calledOnceTools st))"

text \<open>
  The invariant of the turn counter when \<open>k\<close> bootstrap turns were counted: it is \<open>k\<close> plus
  the number of turns of the main loop, never exceeds the cap, and the session has ended in
  \<open>sleeping\<close> when it reaches the cap.
\<close>

definition turn_inv :: "nat \<Rightarrow> 'w LoopState \<Rightarrow> bool" where
  "turn_inv k st =
     (turnsThisWake st = k + length (turn_trace st) \<and>
      turnsThisWake st \<le> MAX_TURNS_PER_WAKE \<and>
      (turnsThisWake st = MAX_TURNS_PER_WAKE \<longrightarrow>
         \<not> running st \<and> agent_state (database st) = Sleeping))"

text \<open>What one message other than a system message is translated to.\<close>

definition translateMessage :: "(string \<Rightarrow> json option) \<Rightarrow> ChatMessage \<Rightarrow> AnthropicMessage" where
  "translateMessage parse msg =
     (if msg_role msg = RoleUser
      then \<lparr> am_role = ''user'', am_content = PlainContent (msg_content msg) \<rparr>
      else if msg_role msg = RoleAssistant
      then \<lparr> am_role = ''assistant'', am_content = BlockContent (assistantContent parse msg) \<rparr>
      else \<lparr> am_role = ''user'', am_content = BlockContent (toolResultContent msg) \<rparr>)"

section \<open>A concrete session\<close>

text \<open>
  A small environment on which the properties are instantiated: no direct OpenAI key, a
  credit service that reports the tier \<open>Normal\<close>, a tool executor that answers every call
  with \<open>ok\<close> and leaves the store alone, a \<open>JSON.parse\<close> restricted to the texts used,
  and a \<open>trim\<close> that strips the ASCII white space, which is what \<open>trim\<close> does on the ASCII
  texts used.
\<close>

definition demo_is_space :: "char \<Rightarrow> bool" where
  "demo_is_space c = (c \<in> {CHR '' '', CHR 0x09, CHR 0x0A, CHR 0x0B, CHR 0x0C, CHR 0x0D})"

definition demo_trim :: "string \<Rightarrow> string" where
  "demo_trim s = rev (dropWhile demo_is_space (rev (dropWhile demo_is_space s)))"

definition demo_tool ::
  "string \<Rightarrow> json \<Rightarrow> unit Database \<Rightarrow> ToolCallResult \<times> unit Database" where
  "demo_tool name args d =
     (\<lparr> tcr_id = ''local'', tcr_name = name, tcr_arguments = args, tcr_result = ''ok'',
        tcr_durationMs = 1, tcr_error = None \<rparr>, d)"

text \<open>The command of the third bootstrap step.\<close>

abbreviation demo_probe :: string where
  "demo_probe \<equiv>
     ''which node && node --version && which git && git --version 2>/dev/null; '' @
     ''which python3 && python3 --version 2>/dev/null; '' @
     ''which curl && curl --version 2>/dev/null | head -1''"

definition demo_parse :: "string \<Rightarrow> json option" where
  "demo_parse s =
     (if s = ''{}'' then Some (JObj [])
      else if s = ''null'' then Some JNull
      else if s = ''{\"command\":\"ls\"}'' then Some (JObj [(''command'', JStr ''ls'')])
      else if s = ''{\"command\":\"'' @ demo_probe @ ''\"}''
      then Some (JObj [(''command'', JStr demo_probe)])
      else None)"

definition demo_env :: "unit Env" where
  "demo_env =
     \<lparr> JSON_parse = demo_parse,
       String_of = (\<lambda>v. ''[object Object]''),
       String_trim = demo_trim,
       executeTool = demo_tool,
       OPENAI_API_KEY = False,
       getSurvivalTier = (\<lambda>c. Normal),
       env_RUNWAY_TIERS = RUNWAY_TIERS,
       env_config = \<lparr> cfg_budgetCents = 2000 \<rparr>,
       env_options = \<lparr> opt_defaultModel = ''gpt-4o'', opt_maxTokens = 8192,
                       opt_lowComputeModel = None \<rparr>,
       wake_now = 1000,
       boot_turnId = (\<lambda>i. ''boot'') \<rparr>"

definition demo_db :: "unit Database" where
  "demo_db =
     \<lparr> kv_start_time = None, kv_sleep_until = None,
       kv_total_spent_cents = None, kv_total_earned_cents = None,
       kv_child_tribute_total_cents = None, kv_turn_cost = [],
       kv_last_economics_snapshot = None, agent_state = Sleeping,
       db_turns = [], db_tool_calls = [], db_economics_snapshots = [], world = () \<rparr>"

definition demo_client :: InferenceClient where
  "demo_client = \<lparr> currentModel = ''gpt-4o'', maxTokens = 8192 \<rparr>"

definition demo_call :: "string \<Rightarrow> string \<Rightarrow> InferenceToolCall" where
  "demo_call name args = \<lparr> tc_id = ''call_1'', tc_name = name, tc_arguments = args \<rparr>"

definition demo_response :: "InferenceToolCall list \<Rightarrow> string \<Rightarrow> InferenceResponse" where
  "demo_response tcs finish =
     \<lparr> resp_content = ''thinking'',
       resp_toolCalls = Some tcs,
       resp_usage = \<lparr> promptTokens = 0, completionTokens = 0, totalTokens = 0 \<rparr>,
       resp_finishReason = finish,
       resp_costCents = Some 0 \<rparr>"

definition demo_iteration :: "InferenceToolCall list \<Rightarrow> string \<Rightarrow> Iteration" where
  "demo_iteration tcs finish =
     \<lparr> it_now = 2000, it_creditsCents = 0, it_turnId = ''turn'',
       it_response = Inr (demo_response tcs finish) \<rparr>"

text \<open>A pass in which the backend fails.\<close>

definition demo_failure :: Iteration where
  "demo_failure =
     \<lparr> it_now = 2000, it_creditsCents = 0, it_turnId = ''turn'',
       it_response = Inl ''Inference error'' \<rparr>"

text \<open>One call of \<open>read_file\<close>; two calls; no call and a finish reason other than \<open>stop\<close>.\<close>

definition demo_read :: Iteration where
  "demo_read = demo_iteration [demo_call ''read_file'' ''{}''] ''tool_calls''"

definition demo_two :: Iteration where
  "demo_two =
     demo_iteration [demo_call ''read_file'' ''{}'', demo_call ''write_file'' ''{}'']
       ''tool_calls''"

definition demo_silent :: Iteration where
  "demo_silent = demo_iteration [] ''length''"

text \<open>The state after the bootstrap phase, and after one, two and three passes.\<close>

definition demo_start :: "unit LoopState" where
  "demo_start = bootstrap demo_env (initLoop demo_env demo_db demo_client)"

definition demo_read1 :: "unit LoopState" where
  "demo_read1 = iteration demo_env demo_read demo_start"

definition demo_read2 :: "unit LoopState" where
  "demo_read2 = iteration demo_env demo_read demo_read1"

definition demo_read3 :: "unit LoopState" where
  "demo_read3 = iteration demo_env demo_read demo_read2"

text \<open>
  A session in which the backend fails once between turns with one call of \<open>read_file\<close>.
\<close>

definition demo_retry1 :: "unit LoopState" where
  "demo_retry1 = iteration demo_env demo_failure demo_read1"

definition demo_retry2 :: "unit LoopState" where
  "demo_retry2 = iteration demo_env demo_read demo_retry1"

definition demo_retry3 :: "unit LoopState" where
  "demo_retry3 = iteration demo_env demo_read demo_retry2"

text \<open>
  A session in which the model asks, pass after pass, for the command of the third bootstrap
  step.
\<close>

definition demo_again :: Iteration where
  "demo_again =
     demo_iteration [demo_call ''exec'' (''{\"command\":\"'' @ demo_probe @ ''\"}'')]
       ''tool_calls''"

definition demo_again1 :: "unit LoopState" where
  "demo_again1 = iteration demo_env demo_again demo_start"

definition demo_again2 :: "unit LoopState" where
  "demo_again2 = iteration demo_env demo_again demo_again1"

definition demo_again3 :: "unit LoopState" where
  "demo_again3 = iteration demo_env demo_again demo_again2"

text \<open>The fingerprint of that command: \<open>exec:\<close> and its first 80 characters.\<close>

abbreviation demo_probe_fp :: string where
  "demo_probe_fp \<equiv>
     ''exec:which node && node --version && which git && git --version 2>/dev/null; which py''"

text \<open>States and inputs of further sessions in the same environment.\<close>

definition demo_quiet :: "unit LoopState" where
  "demo_quiet = iteration demo_env demo_silent demo_read2"

definition demo_pair :: "unit LoopState" where
  "demo_pair = iteration demo_env demo_two demo_read2"

definition demo_fail1 :: "unit LoopState" where
  "demo_fail1 = iteration demo_env demo_failure demo_start"

definition demo_fail4 :: "unit LoopState" where
  "demo_fail4 = mainLoop demo_env [demo_failure, demo_failure, demo_failure] demo_fail1"

definition demo_recovered :: "unit LoopState" where
  "demo_recovered = iteration demo_env demo_read demo_fail1"

definition demo_twelve :: "InferenceToolCall list" where
  "demo_twelve =
     [demo_call ''check_economics'' ''{}'', demo_call ''check_economics'' ''{}'',
      demo_call ''check_economics'' ''{}'', demo_call ''check_economics'' ''{}'',
      demo_call ''check_economics'' ''{}'', demo_call ''check_economics'' ''{}'',
      demo_call ''check_economics'' ''{}'', demo_call ''check_economics'' ''{}'',
      demo_call ''check_economics'' ''{}'', demo_call ''check_economics'' ''{}'',
      demo_call ''read_file'' ''{}'', demo_call ''read_file'' ''{}'']"

definition demo_blocked :: ToolCallResult where
  "demo_blocked = blockedOnce (demo_call ''check_economics'' ''{}'') (JObj [])"

definition demo_flood :: "unit LoopState" where
  "demo_flood = iteration demo_env (demo_iteration demo_twelve ''tool_calls'') demo_start"

definition demo_ls :: InferenceToolCall where
  "demo_ls = demo_call ''exec'' ''{\"command\":\"ls\"}''"

definition demo_ls1 :: "unit LoopState" where
  "demo_ls1 = iteration demo_env (demo_iteration [demo_ls] ''tool_calls'') demo_start"

definition demo_steady :: "unit LoopState \<Rightarrow> bool" where
  "demo_steady st =
     (running st \<and> kv_sleep_until (database st) = None \<and>
      agent_state (database st) = Running \<and> inference st = demo_client)"

definition demo_full :: "unit LoopState" where
  "demo_full = runAgentLoop demo_env demo_db demo_client (replicate 17 demo_two)"

definition demo_status :: Iteration where
  "demo_status =
     demo_iteration [demo_call ''check_economics'' ''{}'', demo_call ''check_health'' ''{}'',
                     demo_call ''check_health'' ''{}''] ''tool_calls''"

definition demo_checked :: "unit LoopState" where
  "demo_checked = runAgentLoop demo_env demo_db demo_client [demo_status]"

definition demo_health :: "unit LoopState \<times> ToolCallResult list \<times> nat" where
  "demo_health = runTool demo_env (demo_call ''check_health'' ''{}'') (JObj []) None
                   (demo_start, [], 0)"

text \<open>
  A \<open>JSON.stringify\<close> restricted to the two objects used, and a message list with an
  assistant tool call followed by its tool result.
\<close>

definition demo_stringify :: "json \<Rightarrow> string" where
  "demo_stringify v =
     (if v = JObj [(''command'', JStr ''ls'')] then ''{\"command\":\"ls\"}'' else ''{}'')"

definition demo_assistant :: ChatMessage where
  "demo_assistant =
     \<lparr> msg_role = RoleAssistant, msg_content = [], msg_tool_calls = Some [demo_ls],
       msg_tool_call_id = None \<rparr>"

definition demo_reply :: ChatMessage where
  "demo_reply =
     \<lparr> msg_role = RoleTool, msg_content = ''a.txt'', msg_tool_calls = None,
       msg_tool_call_id = Some ''call_1'' \<rparr>"

definition demo_messages :: "ChatMessage list" where
  "demo_messages =
     [\<lparr> msg_role = RoleSystem, msg_content = ''You are an agent.'', msg_tool_calls = None,
        msg_tool_call_id = None \<rparr>,
      \<lparr> msg_role = RoleUser, msg_content = ''List the files.'', msg_tool_calls = None,
        msg_tool_call_id = None \<rparr>,
      demo_assistant,
      demo_reply]"

definition demo_answer :: AnthropicResponse where
  "demo_answer =
     \<lparr> ar_content = assistantContent demo_parse demo_assistant,
       ar_stop_reason = Some ''tool_use'', ar_input_tokens = 10, ar_output_tokens = 5 \<rparr>"

section \<open>Properties of the economics engine\<close>

lemma getUptimeHours_nonneg: "0 \<le> getUptimeHours now db"
  by (simp add: getUptimeHours_def le_max_iff_disj split: option.split)

text \<open>With ordered boundaries the tier never gets safer as the runway shrinks.\<close>

lemma getRunwayTier_mono:
  assumes "rt_critical tiers \<le> rt_low_compute tiers" "rt_low_compute tiers \<le> rt_normal tiers"
    and "r1 \<le> r2"
  shows "tier_rank (getRunwayTier tiers r1) \<le> tier_rank (getRunwayTier tiers r2)"
  using assms by (auto simp: getRunwayTier_def)

text \<open>
  C1 (as the code has it). For every table of boundaries and every runway, the tier
  returned by \<open>getRunwayTier\<close> is one whose lower bound the runway strictly exceeds, and no
  safer tier has that property. With decreasing boundaries, a runway exactly equal to a
  boundary is given the lower (less safe) of the two adjacent tiers: the boundary of
  \<open>Normal\<close> yields \<open>LowCompute\<close>, that of \<open>LowCompute\<close> yields \<open>Critical\<close>, that of
  \<open>Critical\<close> yields \<open>Dead\<close>.
\<close>

theorem getRunwayTier_highest_exceeded:
  "exceeds tiers r (getRunwayTier tiers r) \<and>
   (\<forall>t. tier_rank (getRunwayTier tiers r) < tier_rank t \<longrightarrow> \<not> exceeds tiers r t) \<and>
   (rt_critical tiers < rt_low_compute tiers \<and> rt_low_compute tiers < rt_normal tiers \<longrightarrow>
      getRunwayTier tiers (rt_normal tiers) = LowCompute \<and>
      getRunwayTier tiers (rt_low_compute tiers) = Critical \<and>
      getRunwayTier tiers (rt_critical tiers) = Dead)"
proof -
  have a: "exceeds tiers r (getRunwayTier tiers r)"
    by (simp add: getRunwayTier_def)
  have b: "\<not> exceeds tiers r t" if "tier_rank (getRunwayTier tiers r) < tier_rank t" for t
    using that by (cases t) (auto simp: getRunwayTier_def split: if_splits)
  have c: "getRunwayTier tiers (rt_normal tiers) = LowCompute \<and>
      getRunwayTier tiers (rt_low_compute tiers) = Critical \<and>
      getRunwayTier tiers (rt_critical tiers) = Dead"
    if "rt_critical tiers < rt_low_compute tiers \<and> rt_low_compute tiers < rt_normal tiers"
    using that by (simp add: getRunwayTier_def)
  from a b c show ?thesis by blast
qed

theorem getRunwayTier_highest_exceeded_witness:
  "exceeds RUNWAY_TIERS 30 (getRunwayTier RUNWAY_TIERS 30) \<and>
   getRunwayTier RUNWAY_TIERS 30 = LowCompute \<and>
   \<not> exceeds RUNWAY_TIERS 30 Normal \<and>
   getRunwayTier RUNWAY_TIERS 72 = LowCompute \<and>
   getRunwayTier RUNWAY_TIERS 24 = Critical \<and>
   getRunwayTier RUNWAY_TIERS 4 = Dead"
proof -
  have ord: "rt_critical RUNWAY_TIERS < rt_low_compute RUNWAY_TIERS \<and>
             rt_low_compute RUNWAY_TIERS < rt_normal RUNWAY_TIERS"
    by (simp add: RUNWAY_TIERS_def)
  have val: "getRunwayTier RUNWAY_TIERS 30 = LowCompute"
    by (simp add: getRunwayTier_def RUNWAY_TIERS_def)
  have bounds: "rt_normal RUNWAY_TIERS = 72" "rt_low_compute RUNWAY_TIERS = 24"
    "rt_critical RUNWAY_TIERS = 4"
    by (simp_all add: RUNWAY_TIERS_def)
  from getRunwayTier_highest_exceeded [of RUNWAY_TIERS 30] ord val bounds
  show ?thesis by auto
qed

text \<open>
  The claim as the spec words it fails on a tie: a runway of exactly 72 hours, the boundary
  of \<open>Normal\<close>, is not given the safer tier \<open>Normal\<close>.
\<close>

theorem getRunwayTier_tie_counterexample:
  "rt_normal RUNWAY_TIERS = 72 \<and>
   getRunwayTier RUNWAY_TIERS 72 = LowCompute \<and>
   getRunwayTier RUNWAY_TIERS 72 \<noteq> Normal"
  by (simp add: getRunwayTier_def RUNWAY_TIERS_def)

text \<open>
  C3. Every snapshot has \<open>balanceCents = max (budget - spent + earned) 0\<close>; its runway is
  the balance divided by the burn rate when the burn rate is positive, and otherwise the
  sentinel 99999, which is above the boundary of \<open>Normal\<close>. In the scenario of the spec
  (budget 2000, 500 spent, nothing earned, burn rate 100 per hour) the balance is 1500, the
  runway 15 hours and the tier \<open>Critical\<close>.
\<close>

theorem getEconomicsSnapshot_balance_runway:
  "balanceCents (getEconomicsSnapshot now db config)
     = max (cfg_budgetCents config - getTotalSpent db + getTotalEarned db) 0 \<and>
   burnRatePerHour (getEconomicsSnapshot now db config) = calculateBurnRate now db \<and>
   (calculateBurnRate now db > 0 \<longrightarrow>
      runwayHours (getEconomicsSnapshot now db config)
        = balanceCents (getEconomicsSnapshot now db config) / calculateBurnRate now db) \<and>
   (calculateBurnRate now db \<le> 0 \<longrightarrow>
      runwayHours (getEconomicsSnapshot now db config) = 99999 \<and>
      runwayHours (getEconomicsSnapshot now db config) > rt_normal RUNWAY_TIERS \<and>
      getRunwayTier RUNWAY_TIERS (runwayHours (getEconomicsSnapshot now db config)) = Normal) \<and>
   burnRatePerHour (getEconomicsSnapshot scenario_now scenario_db scenario_config) = 100 \<and>
   balanceCents (getEconomicsSnapshot scenario_now scenario_db scenario_config) = 1500 \<and>
   runwayHours (getEconomicsSnapshot scenario_now scenario_db scenario_config) = 15 \<and>
   getRunwayTier RUNWAY_TIERS
     (runwayHours (getEconomicsSnapshot scenario_now scenario_db scenario_config)) = Critical"
proof -
  have burn: "calculateBurnRate scenario_now scenario_db = 100"
    by (simp add: calculateBurnRate_def getUptimeHours_def getTotalSpent_def
        scenario_db_def scenario_now_def)
  have spent: "getTotalSpent scenario_db = 500" and earned: "getTotalEarned scenario_db = 0"
    by (simp_all add: getTotalSpent_def getTotalEarned_def scenario_db_def)
  have sc: "burnRatePerHour (getEconomicsSnapshot scenario_now scenario_db scenario_config) = 100"
    "balanceCents (getEconomicsSnapshot scenario_now scenario_db scenario_config) = 1500"
    "runwayHours (getEconomicsSnapshot scenario_now scenario_db scenario_config) = 15"
    by (simp_all add: getEconomicsSnapshot_def Let_def burn spent earned calculateRunway_def
        scenario_config_def)
  have tier: "getRunwayTier RUNWAY_TIERS
     (runwayHours (getEconomicsSnapshot scenario_now scenario_db scenario_config)) = Critical"
    by (simp add: sc getRunwayTier_def RUNWAY_TIERS_def)
  have gen: "balanceCents (getEconomicsSnapshot now db config)
     = max (cfg_budgetCents config - getTotalSpent db + getTotalEarned db) 0"
    "burnRatePerHour (getEconomicsSnapshot now db config) = calculateBurnRate now db"
    by (simp_all add: getEconomicsSnapshot_def Let_def)
  have pos: "runwayHours (getEconomicsSnapshot now db config)
        = balanceCents (getEconomicsSnapshot now db config) / calculateBurnRate now db"
    if "calculateBurnRate now db > 0"
    using that by (simp add: getEconomicsSnapshot_def Let_def calculateRunway_def)
  have sentinel: "runwayHours (getEconomicsSnapshot now db config) = 99999"
    if "calculateBurnRate now db \<le> 0"
    using that by (simp add: getEconomicsSnapshot_def Let_def calculateRunway_def)
  have above: "runwayHours (getEconomicsSnapshot now db config) > rt_normal RUNWAY_TIERS \<and>
      getRunwayTier RUNWAY_TIERS (runwayHours (getEconomicsSnapshot now db config)) = Normal"
    if "calculateBurnRate now db \<le> 0"
    using sentinel [OF that] by (simp add: RUNWAY_TIERS_def getRunwayTier_def)
  from gen pos sentinel above sc tier show ?thesis by blast
qed

text \<open>
  The instance takes the scenario for the positive burn rate and the same store before any
  spending for the burn rate 0.
\<close>

theorem getEconomicsSnapshot_balance_runway_witness:
  "calculateBurnRate scenario_now scenario_db > 0 \<and>
   runwayHours (getEconomicsSnapshot scenario_now scenario_db scenario_config)
     = balanceCents (getEconomicsSnapshot scenario_now scenario_db scenario_config)
         / calculateBurnRate scenario_now scenario_db \<and>
   calculateBurnRate scenario_now (scenario_db\<lparr> kv_total_spent_cents := None \<rparr>) \<le> 0 \<and>
   runwayHours (getEconomicsSnapshot scenario_now
       (scenario_db\<lparr> kv_total_spent_cents := None \<rparr>) scenario_config) = 99999"
proof -
  have p: "calculateBurnRate scenario_now scenario_db > 0"
    by (simp add: calculateBurnRate_def getUptimeHours_def getTotalSpent_def
        scenario_db_def scenario_now_def)
  have z: "calculateBurnRate scenario_now (scenario_db\<lparr> kv_total_spent_cents := None \<rparr>) \<le> 0"
    by (simp add: calculateBurnRate_def getUptimeHours_def getTotalSpent_def
        scenario_db_def scenario_now_def)
  from p z
    getEconomicsSnapshot_balance_runway [of scenario_now scenario_db scenario_config]
    getEconomicsSnapshot_balance_runway
      [of scenario_now "scenario_db\<lparr> kv_total_spent_cents := None \<rparr>" scenario_config]
  show ?thesis by blast
qed

text \<open>
  C5. For every store, configuration and number of children, \<open>checkSpawnGate\<close> reports
  the own monthly cost as the burn rate times 720, the monthly cost of a child as 0.8 times
  that, the threshold as the own cost plus the number of children times the child cost;
  \<open>canSpawn\<close> holds exactly when the balance, clamped at 0, is at least the threshold, and
  the deficit is the threshold minus the balance when spawning is not affordable and 0
  otherwise.
\<close>

theorem checkSpawnGate_correct:
  "ownMonthlyCost (checkSpawnGate now db config n) = calculateBurnRate now db * 720 \<and>
   childMonthlyCost (checkSpawnGate now db config n)
     = 0.8 * ownMonthlyCost (checkSpawnGate now db config n) \<and>
   spawnThreshold (checkSpawnGate now db config n)
     = ownMonthlyCost (checkSpawnGate now db config n)
       + n * childMonthlyCost (checkSpawnGate now db config n) \<and>
   sg_balanceCents (checkSpawnGate now db config n)
     = max (cfg_budgetCents config - getTotalSpent db + getTotalEarned db) 0 \<and>
   canSpawn (checkSpawnGate now db config n)
     = (sg_balanceCents (checkSpawnGate now db config n)
          \<ge> spawnThreshold (checkSpawnGate now db config n)) \<and>
   deficit (checkSpawnGate now db config n)
     = (if canSpawn (checkSpawnGate now db config n) then 0
        else spawnThreshold (checkSpawnGate now db config n)
             - sg_balanceCents (checkSpawnGate now db config n))"
proof -
  define balance where
    "balance = max (cfg_budgetCents config - getTotalSpent db + getTotalEarned db) 0"
  define own where "own = calculateBurnRate now db * 720"
  define threshold where "threshold = own + n * (own * 0.8)"
  define g where "g = checkSpawnGate now db config n"
  have g: "g = (if balance < threshold
         then \<lparr> canSpawn = False, sg_balanceCents = balance, ownMonthlyCost = own,
                childMonthlyCost = own * 0.8, spawnThreshold = threshold,
                deficit = max (threshold - balance) 0 \<rparr>
         else \<lparr> canSpawn = True, sg_balanceCents = balance, ownMonthlyCost = own,
                childMonthlyCost = own * 0.8, spawnThreshold = threshold, deficit = 0 \<rparr>)"
    unfolding g_def checkSpawnGate_def Let_def HOURS_PER_MONTH_def balance_def own_def
      threshold_def by (rule refl)
  have f1: "ownMonthlyCost g = own" and f2: "childMonthlyCost g = own * 0.8"
    and f3: "spawnThreshold g = threshold" and f4: "sg_balanceCents g = balance"
    and f5: "canSpawn g = (\<not> balance < threshold)"
    and f6: "deficit g = (if balance < threshold then threshold - balance else 0)"
    by (simp_all add: g)
  have "ownMonthlyCost g = calculateBurnRate now db * 720"
    by (simp add: f1 own_def)
  moreover have "childMonthlyCost g = 0.8 * ownMonthlyCost g"
    by (simp add: f1 f2)
  moreover have "spawnThreshold g = ownMonthlyCost g + n * childMonthlyCost g"
    by (simp only: f1 f2 f3 threshold_def)
  moreover have "sg_balanceCents g
      = max (cfg_budgetCents config - getTotalSpent db + getTotalEarned db) 0"
    by (simp only: f4 balance_def)
  moreover have "canSpawn g = (sg_balanceCents g \<ge> spawnThreshold g)"
    by (simp only: f3 f4 f5 not_less)
  moreover have "deficit g
      = (if canSpawn g then 0 else spawnThreshold g - sg_balanceCents g)"
    by (simp add: f3 f4 f5 f6)
  ultimately show ?thesis
    unfolding g_def by blast
qed

text \<open>
  In the scenario the burn rate is 100 cents per hour: one child needs 129600 cents, the
  balance is 1500, and spawning is refused with a deficit of 128100.
\<close>

theorem checkSpawnGate_correct_witness:
  "ownMonthlyCost (checkSpawnGate scenario_now scenario_db scenario_config 1) = 72000 \<and>
   childMonthlyCost (checkSpawnGate scenario_now scenario_db scenario_config 1) = 57600 \<and>
   spawnThreshold (checkSpawnGate scenario_now scenario_db scenario_config 1) = 129600 \<and>
   sg_balanceCents (checkSpawnGate scenario_now scenario_db scenario_config 1) = 1500 \<and>
   \<not> canSpawn (checkSpawnGate scenario_now scenario_db scenario_config 1) \<and>
   deficit (checkSpawnGate scenario_now scenario_db scenario_config 1) = 128100"
proof -
  have burn: "calculateBurnRate scenario_now scenario_db = 100"
    by (simp add: calculateBurnRate_def getUptimeHours_def getTotalSpent_def
        scenario_db_def scenario_now_def)
  have spent: "getTotalSpent scenario_db = 500" and earned: "getTotalEarned scenario_db = 0"
    by (simp_all add: getTotalSpent_def getTotalEarned_def scenario_db_def)
  have budget: "cfg_budgetCents scenario_config = 2000"
    by (simp add: scenario_config_def)
  from checkSpawnGate_correct [of scenario_now scenario_db scenario_config 1]
  show ?thesis by (simp add: burn spent earned budget)
qed

section \<open>Properties of the wake-cycle controller\<close>

subsection \<open>The loop over the requested calls\<close>

lemma same_locals_refl: "same_locals st st"
  by (simp add: same_locals_def)

lemma same_locals_trans: "same_locals a b \<Longrightarrow> same_locals b c \<Longrightarrow> same_locals a c"
  by (simp add: same_locals_def)

lemma runTool_locals:
  "runTool env tc args command (st, rs, c) = (st', rs', c') \<Longrightarrow>
     same_locals st st' \<and> c' = Suc c \<and> length rs' = Suc (length rs)"
  by (auto simp: runTool_def same_locals_def Let_def split: prod.splits)

lemma handleToolCall_Inr:
  "handleToolCall env tc (st, rs, c) = Inr (st', rs', c') \<Longrightarrow>
     same_locals st st' \<and> c' = Suc c \<and> length rs' = Suc (length rs)"
  unfolding handleToolCall_def Let_def
  by (auto simp: same_locals_refl split: if_splits sum.splits dest!: runTool_locals)

lemma handleToolCall_Inl:
  "handleToolCall env tc (st, rs, c) = Inl (e, st') \<Longrightarrow> st' = st"
  unfolding handleToolCall_def Let_def
  by (auto split: if_splits sum.splits)

lemma toolLoop_Inr:
  "toolLoop env tcs (st, rs, c) = Inr (st', rs', c') \<Longrightarrow> length rs = c \<Longrightarrow>
     c \<le> MAX_TOOL_CALLS_PER_TURN \<Longrightarrow>
     same_locals st st' \<and> c' = length rs' \<and>
     length rs' = min MAX_TOOL_CALLS_PER_TURN (c + length tcs)"
proof (induction tcs arbitrary: st rs c)
  case Nil
  then show ?case by (simp add: same_locals_refl)
next
  case (Cons tc tcs)
  show ?case
  proof (cases "c \<ge> MAX_TOOL_CALLS_PER_TURN")
    case True
    with Cons.prems show ?thesis by (auto simp: same_locals_refl)
  next
    case False
    with Cons.prems obtain st1 rs1 c1 where
      h: "handleToolCall env tc (st, rs, c) = Inr (st1, rs1, c1)"
      and t: "toolLoop env tcs (st1, rs1, c1) = Inr (st', rs', c')"
      by (auto split: sum.splits)
    from handleToolCall_Inr [OF h] have
      l: "same_locals st st1" and c1: "c1 = Suc c" and r1: "length rs1 = Suc (length rs)"
      by simp_all
    from False Cons.prems c1 r1 have "length rs1 = c1" "c1 \<le> MAX_TOOL_CALLS_PER_TURN"
      by simp_all
    from Cons.IH [OF t this] l c1 show ?thesis
      by (auto intro: same_locals_trans)
  qed
qed

lemma toolLoop_Inl:
  "toolLoop env tcs (st, rs, c) = Inl (e, st') \<Longrightarrow> same_locals st st'"
proof (induction tcs arbitrary: st rs c)
  case Nil
  then show ?case by simp
next
  case (Cons tc tcs)
  show ?case
  proof (cases "handleToolCall env tc (st, rs, c)")
    case (Inl ex)
    with Cons.prems have "ex = (e, st')" by (auto split: if_splits)
    with Inl handleToolCall_Inl have "st' = st" by metis
    then show ?thesis by (simp add: same_locals_refl)
  next
    case (Inr acc)
    obtain st1 rs1 c1 where acc: "acc = (st1, rs1, c1)" by (cases acc) auto
    from Inr acc Cons.prems have "toolLoop env tcs (st1, rs1, c1) = Inl (e, st')"
      by (auto split: if_splits)
    from Cons.IH [OF this] handleToolCall_Inr [OF Inr [unfolded acc]]
    show ?thesis by (auto intro: same_locals_trans)
  qed
qed

lemma toolLoop_take:
  "toolLoop env tcs (st, rs, c) =
   toolLoop env (take (MAX_TOOL_CALLS_PER_TURN - c) tcs) (st, rs, c)"
proof (induction tcs arbitrary: st rs c)
  case Nil
  then show ?case by simp
next
  case (Cons tc tcs)
  show ?case
  proof (cases "c \<ge> MAX_TOOL_CALLS_PER_TURN")
    case True
    then show ?thesis by simp
  next
    case False
    then obtain k where k: "MAX_TOOL_CALLS_PER_TURN - c = Suc k"
      by (cases "MAX_TOOL_CALLS_PER_TURN - c") auto
    show ?thesis
    proof (cases "handleToolCall env tc (st, rs, c)")
      case (Inl ex)
      with False k show ?thesis by simp
    next
      case (Inr acc)
      obtain st1 rs1 c1 where acc: "acc = (st1, rs1, c1)" by (cases acc) auto
      from handleToolCall_Inr [OF Inr [unfolded acc]] have "c1 = Suc c" by simp
      with k have "MAX_TOOL_CALLS_PER_TURN - c1 = k" by simp
      with Cons.IH [of st1 rs1 c1] Inr acc False k show ?thesis by simp
    qed
  qed
qed

lemma exec_not_once: "''exec'' \<notin> ONCE_PER_WAKE_TOOLS"
  by (simp add: ONCE_PER_WAKE_TOOLS_def)

lemma handleToolCall_cases:
  assumes "handleToolCall env tc (st, rs, c) = Inr acc"
  obtains
    (blocked_once) "tc_name tc \<in> ONCE_PER_WAKE_TOOLS" "tc_name tc \<in> calledOnceTools st"
      "acc = (st, rs @ [blockedOnce tc (parseArgs env (tc_arguments tc))], Suc c)"
  | (blocked_exec) command where "tc_name tc = ''exec''"
      "get_command (parseArgs env (tc_arguments tc)) = Inr command" "truthy_opt command"
      "String_trim env (String_js env command) \<in> executedCommands st"
      "acc = (st, rs @ [blockedExec tc (parseArgs env (tc_arguments tc))
                          (String_trim env (String_js env command))], Suc c)"
  | (run) command where
      "\<not> (tc_name tc \<in> ONCE_PER_WAKE_TOOLS \<and> tc_name tc \<in> calledOnceTools st)"
      "acc = runTool env tc (parseArgs env (tc_arguments tc)) command (st, rs, c)"
proof (cases "tc_name tc \<in> ONCE_PER_WAKE_TOOLS \<and> tc_name tc \<in> calledOnceTools st")
  case True
  with assms have a: "acc = (st, rs @ [blockedOnce tc (parseArgs env (tc_arguments tc))], Suc c)"
    by (auto simp: handleToolCall_def Let_def)
  show ?thesis by (rule blocked_once) (use True a in simp_all)
next
  case False
  show ?thesis
  proof (cases "tc_name tc = ''exec''")
    case notexec: False
    with False assms
    have a: "acc = runTool env tc (parseArgs env (tc_arguments tc)) None (st, rs, c)"
      by (auto simp: handleToolCall_def Let_def)
    show ?thesis by (rule run [of None]) (use False a in simp_all)
  next
    case True
    with False assms obtain command where
      g: "get_command (parseArgs env (tc_arguments tc)) = Inr command"
      by (cases "get_command (parseArgs env (tc_arguments tc))")
        (auto simp: handleToolCall_def Let_def)
    show ?thesis
    proof (cases "truthy_opt command \<and> String_trim env (String_js env command) \<in> executedCommands st")
      case blocked: True
      with True False g assms
      have a: "acc = (st, rs @ [blockedExec tc (parseArgs env (tc_arguments tc))
                          (String_trim env (String_js env command))], Suc c)"
        by (auto simp: handleToolCall_def Let_def)
      show ?thesis by (rule blocked_exec [of command]) (use True g blocked a in simp_all)
    next
      case notblocked: False
      with True False g assms
      have a: "acc = runTool env tc (parseArgs env (tc_arguments tc)) command (st, rs, c)"
        by (auto simp: handleToolCall_def Let_def split: if_splits)
      show ?thesis by (rule run [of command]) (use False a in simp_all)
    qed
  qed
qed

lemma handleToolCall_blockedOnce:
  "tc_name tc \<in> ONCE_PER_WAKE_TOOLS \<Longrightarrow> tc_name tc \<in> calledOnceTools st \<Longrightarrow>
   handleToolCall env tc (st, rs, c) =
     Inr (st, rs @ [blockedOnce tc (parseArgs env (tc_arguments tc))], Suc c)"
  by (simp add: handleToolCall_def Let_def)

lemma handleToolCall_blockedExec:
  "tc_name tc = ''exec'' \<Longrightarrow> get_command (parseArgs env (tc_arguments tc)) = Inr command \<Longrightarrow>
   truthy_opt command \<Longrightarrow> String_trim env (String_js env command) \<in> executedCommands st \<Longrightarrow>
   handleToolCall env tc (st, rs, c) =
     Inr (st, rs @ [blockedExec tc (parseArgs env (tc_arguments tc))
                      (String_trim env (String_js env command))], Suc c)"
  by (simp add: handleToolCall_def Let_def ONCE_PER_WAKE_TOOLS_def)

subsection \<open>The parts of a pass\<close>

lemma setAgentState_fields [simp]:
  "consecutiveErrors (setAgentState a st) = consecutiveErrors st"
  "running (setAgentState a st) = running st"
  "turnsThisWake (setAgentState a st) = turnsThisWake st"
  "lastToolName (setAgentState a st) = lastToolName st"
  "consecutiveSameTool (setAgentState a st) = consecutiveSameTool st"
  "calledOnceTools (setAgentState a st) = calledOnceTools st"
  "executedCommands (setAgentState a st) = executedCommands st"
  "inference (setAgentState a st) = inference st"
  "exec_trace (setAgentState a st) = exec_trace st"
  "turn_trace (setAgentState a st) = turn_trace st"
  "agent_state (database (setAgentState a st)) = a"
  "kv_sleep_until (database (setAgentState a st)) = kv_sleep_until (database st)"
  by (simp_all add: setAgentState_def)

lemma setSleepUntil_fields [simp]:
  "consecutiveErrors (setSleepUntil t st) = consecutiveErrors st"
  "running (setSleepUntil t st) = running st"
  "turnsThisWake (setSleepUntil t st) = turnsThisWake st"
  "lastToolName (setSleepUntil t st) = lastToolName st"
  "consecutiveSameTool (setSleepUntil t st) = consecutiveSameTool st"
  "calledOnceTools (setSleepUntil t st) = calledOnceTools st"
  "executedCommands (setSleepUntil t st) = executedCommands st"
  "inference (setSleepUntil t st) = inference st"
  "exec_trace (setSleepUntil t st) = exec_trace st"
  "turn_trace (setSleepUntil t st) = turn_trace st"
  "agent_state (database (setSleepUntil t st)) = agent_state (database st)"
  "kv_sleep_until (database (setSleepUntil t st)) = t"
  by (simp_all add: setSleepUntil_def)

lemma forceSleep_fields [simp]:
  "consecutiveErrors (forceSleep t st) = consecutiveErrors st"
  "running (forceSleep t st) = False"
  "turnsThisWake (forceSleep t st) = turnsThisWake st"
  "lastToolName (forceSleep t st) = lastToolName st"
  "consecutiveSameTool (forceSleep t st) = consecutiveSameTool st"
  "calledOnceTools (forceSleep t st) = calledOnceTools st"
  "executedCommands (forceSleep t st) = executedCommands st"
  "exec_trace (forceSleep t st) = exec_trace st"
  "turn_trace (forceSleep t st) = turn_trace st"
  "agent_state (database (forceSleep t st)) = Sleeping"
  "kv_sleep_until (database (forceSleep t st)) = Some t"
  by (simp_all add: forceSleep_def)

lemma applyTier_Continue: "applyTier env tier st = Continue st1 \<Longrightarrow> same_locals st st1"
  by (auto simp: applyTier_def same_locals_def split: if_splits)

lemma applyTier_Break:
  "applyTier env tier st = Break st1 \<Longrightarrow>
     turn_trace st1 = turn_trace st \<and> turnsThisWake st1 = turnsThisWake st \<and>
     consecutiveErrors st1 = consecutiveErrors st \<and> \<not> running st1 \<and>
     exec_trace st1 = exec_trace st \<and> calledOnceTools st1 = calledOnceTools st"
  by (auto simp: applyTier_def split: if_splits)

lemma beforeInference_Continue:
  "beforeInference env it st = Continue st1 \<Longrightarrow> same_locals st st1"
  by (auto simp: beforeInference_def split: option.splits if_splits dest: applyTier_Continue)

lemma beforeInference_Break:
  "beforeInference env it st = Break st1 \<Longrightarrow>
     turn_trace st1 = turn_trace st \<and> turnsThisWake st1 = turnsThisWake st \<and>
     consecutiveErrors st1 = consecutiveErrors st \<and> \<not> running st1 \<and>
     exec_trace st1 = exec_trace st \<and> calledOnceTools st1 = calledOnceTools st"
  by (auto simp: beforeInference_def split: option.splits if_splits dest: applyTier_Break)

lemma executeToolCalls_Inr:
  assumes "executeToolCalls env response st = Inr (st', results)"
  shows "same_locals st st' \<and>
         length results = min MAX_TOOL_CALLS_PER_TURN (length (requested response))"
proof (cases "resp_toolCalls response")
  case None
  with assms show ?thesis
    by (auto simp: executeToolCalls_def requested_def same_locals_refl)
next
  case (Some tcs)
  show ?thesis
  proof (cases "length tcs > 0")
    case False
    with Some assms show ?thesis
      by (auto simp: executeToolCalls_def requested_def same_locals_refl)
  next
    case True
    with Some assms obtain c where "toolLoop env tcs (st, [], 0) = Inr (st', results, c)"
      by (auto simp: executeToolCalls_def split: sum.splits)
    from toolLoop_Inr [OF this] Some show ?thesis
      by (simp add: requested_def)
  qed
qed

lemma executeToolCalls_Inl:
  "executeToolCalls env response st = Inl (e, st') \<Longrightarrow> same_locals st st'"
  by (auto simp: executeToolCalls_def split: option.splits if_splits sum.splits
      dest: toolLoop_Inl)

lemma executeToolCalls_take:
  "executeToolCalls env (response\<lparr> resp_toolCalls := Some tcs \<rparr>) st =
   executeToolCalls env (response\<lparr> resp_toolCalls := Some (take MAX_TOOL_CALLS_PER_TURN tcs) \<rparr>) st"
proof (cases "tcs = []")
  case True
  then show ?thesis by simp
next
  case False
  then have "take MAX_TOOL_CALLS_PER_TURN tcs \<noteq> []"
    by (simp add: MAX_TOOL_CALLS_PER_TURN_def)
  with False toolLoop_take [of env tcs st "[]" 0] show ?thesis
    by (simp add: executeToolCalls_def)
qed

lemma fold_insertToolCall_fields [simp]:
  "kv_sleep_until (fold (insertToolCall i) rs d) = kv_sleep_until d"
  "agent_state (fold (insertToolCall i) rs d) = agent_state d"
  "db_turns (fold (insertToolCall i) rs d) = db_turns d"
  by (induction rs arbitrary: d) (simp_all add: insertToolCall_def)

lemma persistTurn_fields [simp]:
  "consecutiveErrors (persistTurn env it response turn st) = consecutiveErrors st"
  "running (persistTurn env it response turn st) = running st"
  "turnsThisWake (persistTurn env it response turn st) = Suc (turnsThisWake st)"
  "lastToolName (persistTurn env it response turn st) = lastToolName st"
  "consecutiveSameTool (persistTurn env it response turn st) = consecutiveSameTool st"
  "calledOnceTools (persistTurn env it response turn st) = calledOnceTools st"
  "executedCommands (persistTurn env it response turn st) = executedCommands st"
  "exec_trace (persistTurn env it response turn st) = exec_trace st"
  "turn_trace (persistTurn env it response turn st) = turn_trace st @ [turn]"
  by (simp_all add: persistTurn_def Let_def)

lemma persistTurn_database [simp]:
  "kv_sleep_until (database (persistTurn env it response turn st))
     = kv_sleep_until (database st)"
  "agent_state (database (persistTurn env it response turn st)) = agent_state (database st)"
  "inference (persistTurn env it response turn st) = inference st"
  by (simp_all add: persistTurn_def Let_def recordTurnCost_def insertTurn_def
      insertEconomicsSnapshot_def)

lemma persistTurn_turns:
  "db_turns (database (persistTurn env it response turn st)) = db_turns (database st) @ [turn]"
  by (simp add: persistTurn_def Let_def insertTurn_def
      recordTurnCost_def insertEconomicsSnapshot_def)

lemma detectStuck_fields [simp]:
  "consecutiveErrors (detectStuck env turn st) = consecutiveErrors st"
  "running (detectStuck env turn st) = running st"
  "turnsThisWake (detectStuck env turn st) = turnsThisWake st"
  "calledOnceTools (detectStuck env turn st) = calledOnceTools st"
  "executedCommands (detectStuck env turn st) = executedCommands st"
  "database (detectStuck env turn st) = database st"
  "exec_trace (detectStuck env turn st) = exec_trace st"
  "turn_trace (detectStuck env turn st) = turn_trace st"
  by (simp_all add: detectStuck_def Let_def)

lemma decideSleep_fields [simp]:
  "turnsThisWake (decideSleep it response turn st) = turnsThisWake st"
  "lastToolName (decideSleep it response turn st) = lastToolName st"
  "consecutiveSameTool (decideSleep it response turn st) = consecutiveSameTool st"
  "calledOnceTools (decideSleep it response turn st) = calledOnceTools st"
  "executedCommands (decideSleep it response turn st) = executedCommands st"
  "exec_trace (decideSleep it response turn st) = exec_trace st"
  "turn_trace (decideSleep it response turn st) = turn_trace st"
  by (simp_all add: decideSleep_def)

lemma catchError_fields [simp]:
  "consecutiveErrors (catchError it st) = Suc (consecutiveErrors st)"
  "turnsThisWake (catchError it st) = turnsThisWake st"
  "lastToolName (catchError it st) = lastToolName st"
  "consecutiveSameTool (catchError it st) = consecutiveSameTool st"
  "calledOnceTools (catchError it st) = calledOnceTools st"
  "executedCommands (catchError it st) = executedCommands st"
  "exec_trace (catchError it st) = exec_trace st"
  "turn_trace (catchError it st) = turn_trace st"
  by (simp_all add: catchError_def Let_def)

lemma catchError_database:
  "consecutiveErrors st < 4 \<Longrightarrow> catchError it st = st\<lparr> consecutiveErrors := Suc (consecutiveErrors st) \<rparr>"
  by (simp add: catchError_def Let_def MAX_CONSECUTIVE_ERRORS_def)

lemma inference_update_same: "inference st = c \<Longrightarrow> st\<lparr> inference := c \<rparr> = st"
  by (cases st) simp

text \<open>The three ways a pass can end.\<close>

lemma iteration_cases:
  obtains
    (break) st1 where "beforeInference env it st = Break st1" "iteration env it st = st1"
  | (thrown) e st1 where "tryBody env it st = Inl (e, st1)" "same_locals st st1"
      "iteration env it st = catchError it st1"
  | (turn) st1 response st2 results where
      "beforeInference env it st = Continue st1" "it_response it = Inr response"
      "executeToolCalls env response st1 = Inr (st2, results)"
      "same_locals st st2"
      "tryBody env it st = Inr (iteration env it st)"
      "iteration env it st =
         decideSleep it response ((newTurn it response st1)\<lparr> toolCalls := results \<rparr>)
           (detectStuck env ((newTurn it response st1)\<lparr> toolCalls := results \<rparr>)
             (persistTurn env it response
                ((newTurn it response st1)\<lparr> toolCalls := results \<rparr>) st2))"
proof (cases "beforeInference env it st")
  case (Break st1)
  then have "iteration env it st = st1"
    by (simp add: iteration_def tryBody_def)
  with Break show ?thesis by (rule break)
next
  case (Continue st1)
  note l1 = beforeInference_Continue [OF Continue]
  show ?thesis
  proof (cases "it_response it")
    case (Inl e)
    with Continue have t: "tryBody env it st = Inl (e, st1)"
      by (simp add: tryBody_def)
    then have "iteration env it st = catchError it st1"
      by (simp add: iteration_def)
    with t l1 show ?thesis by (blast intro: thrown)
  next
    case (Inr response)
    show ?thesis
    proof (cases "executeToolCalls env response st1")
      case (Inl ex)
      obtain e st2 where ex: "ex = (e, st2)" by (cases ex) auto
      from Inl ex Continue Inr have t: "tryBody env it st = Inl (e, st2)"
        by (simp add: tryBody_def)
      from executeToolCalls_Inl [OF Inl [unfolded ex]] l1 have l2: "same_locals st st2"
        by (blast intro: same_locals_trans)
      from t have "iteration env it st = catchError it st2"
        by (simp add: iteration_def)
      with t l2 show ?thesis by (blast intro: thrown)
    next
      case (Inr acc)
      obtain st2 results where acc: "acc = (st2, results)" by (cases acc) auto
      from executeToolCalls_Inr [OF Inr [unfolded acc]] l1 have l2: "same_locals st st2"
        by (auto intro: same_locals_trans)
      from Inr acc Continue \<open>it_response it = Inr response\<close>
      have t: "tryBody env it st =
         Inr (decideSleep it response ((newTurn it response st1)\<lparr> toolCalls := results \<rparr>)
           (detectStuck env ((newTurn it response st1)\<lparr> toolCalls := results \<rparr>)
             (persistTurn env it response
                ((newTurn it response st1)\<lparr> toolCalls := results \<rparr>) st2)))"
        by (simp add: tryBody_def Let_def)
      then have i: "iteration env it st =
         decideSleep it response ((newTurn it response st1)\<lparr> toolCalls := results \<rparr>)
           (detectStuck env ((newTurn it response st1)\<lparr> toolCalls := results \<rparr>)
             (persistTurn env it response
                ((newTurn it response st1)\<lparr> toolCalls := results \<rparr>) st2))"
        by (simp add: iteration_def)
      from t i have "tryBody env it st = Inr (iteration env it st)" by simp
      with Continue \<open>it_response it = Inr response\<close> Inr [unfolded acc] l2 i
      show ?thesis by (blast intro: turn)
    qed
  qed
qed

lemma completedTurn_cases:
  assumes "completedTurn env it st = Some t"
  obtains st1 response st2 where
    "beforeInference env it st = Continue st1" "it_response it = Inr response"
    "executeToolCalls env response st1 = Inr (st2, toolCalls t)"
    "same_locals st st2"
    "t = (newTurn it response st1)\<lparr> toolCalls := toolCalls t \<rparr>"
    "tryBody env it st = Inr (iteration env it st)"
    "iteration env it st =
       decideSleep it response t (detectStuck env t (persistTurn env it response t st2))"
proof (cases rule: iteration_cases [of env it st])
  case (break st1)
  with beforeInference_Break [OF break(1)] assms show ?thesis
    by (simp add: completedTurn_def)
next
  case (thrown e st1)
  with assms show ?thesis
    by (simp add: completedTurn_def same_locals_def)
next
  case (turn st1 response st2 results)
  define t' where "t' = (newTurn it response st1)\<lparr> toolCalls := results \<rparr>"
  from turn(4,6) have "turn_trace (iteration env it st) = turn_trace st @ [t']"
    by (simp add: t'_def same_locals_def)
  with assms have t: "t = t'"
    by (simp add: completedTurn_def)
  then have "toolCalls t = results" by (simp add: t'_def)
  with turn t show ?thesis
    by (intro that [of st1 response st2]) (simp_all add: t'_def)
qed

lemma completedTurn_last:
  "length (turn_trace (iteration env it st)) = Suc (length (turn_trace st)) \<Longrightarrow>
   completedTurn env it st = Some (last (turn_trace (iteration env it st)))"
  by (simp add: completedTurn_def)

lemma iteration_counter:
  assumes "completedTurn env it st = Some t"
  shows "consecutiveSameTool (iteration env it st) =
           (if length (toolCalls t) = 1
            then (if fingerprint env (hd (toolCalls t)) = lastToolName st
                  then consecutiveSameTool st + 1 else 1)
            else if length (toolCalls t) > 1 then 0
            else consecutiveSameTool st)"
    and "lastToolName (iteration env it st) =
           (if length (toolCalls t) = 1 then fingerprint env (hd (toolCalls t))
            else if length (toolCalls t) > 1 then []
            else lastToolName st)"
  using assms
  by (auto elim!: completedTurn_cases simp: same_locals_def detectStuck_def Let_def)

lemma iteration_stuck:
  assumes "completedTurn env it st = Some t" "consecutiveSameTool (iteration env it st) \<ge> 3"
  shows "\<not> running (iteration env it st) \<and>
         agent_state (database (iteration env it st)) = Sleeping \<and>
         kv_sleep_until (database (iteration env it st)) = Some (it_now it + 600000)"
proof -
  from assms(1) obtain st2 response where
    i: "iteration env it st =
       decideSleep it response t (detectStuck env t (persistTurn env it response t st2))"
    by (rule completedTurn_cases)
  define s where "s = detectStuck env t (persistTurn env it response t st2)"
  from i assms(2) have "consecutiveSameTool s \<ge> 3"
    by (simp add: s_def)
  then have "decideSleep it response t s = forceSleep (it_now it + 600000) s"
    by (simp add: decideSleep_def)
  with i show ?thesis by (simp add: s_def)
qed

lemma iteration_reset:
  assumes "completedTurn env it st = Some t"
    and "consecutiveSameTool (iteration env it st) < 3" and "\<not> sleepRequested t"
    and "turnsThisWake (iteration env it st) < MAX_TURNS_PER_WAKE"
  shows "consecutiveErrors (iteration env it st) = 0"
proof -
  from assms(1) obtain st2 response where
    i: "iteration env it st =
       decideSleep it response t (detectStuck env t (persistTurn env it response t st2))"
    by (rule completedTurn_cases)
  define s where "s = detectStuck env t (persistTurn env it response t st2)"
  from i assms(2,4) have "consecutiveSameTool s < 3" "turnsThisWake s < MAX_TURNS_PER_WAKE"
    by (simp_all add: s_def)
  with assms(3) have "consecutiveErrors (decideSleep it response t s) = 0"
    by (simp add: decideSleep_def forceSleep_def)
  with i show ?thesis by (simp add: s_def)
qed

lemma mainLoop_halted: "\<not> running st \<Longrightarrow> mainLoop env its st = st"
  by (cases its) simp_all

lemma mainLoop_append:
  "mainLoop env (xs @ ys) st = mainLoop env ys (mainLoop env xs st)"
  by (induction xs arbitrary: st) (simp_all add: mainLoop_halted)

text \<open>
  The run of matching turns grows by one with a matching turn and ends with any other.
\<close>

lemma trailing_matches_Nil [simp]: "trailing_matches env f [] = 0"
  by (simp add: trailing_matches_def)

lemma trailing_matches_snoc [simp]:
  "trailing_matches env f (ts @ [t]) =
     (if single_call env t f then Suc (trailing_matches env f ts) else 0)"
  by (simp add: trailing_matches_def)

text \<open>
  A pass that completes a turn appends it to the turns of the main loop, with the time of
  the pass as its timestamp; a pass that completes none leaves the turns, the repetition
  counter and the remembered fingerprint as they were.
\<close>

lemma completedTurn_trace:
  assumes "completedTurn env it st = Some t"
  shows "turn_trace (iteration env it st) = turn_trace st @ [t]"
    and "turn_timestamp t = it_now it"
proof -
  from assms obtain st1 response st2 where
    "beforeInference env it st = Continue st1" "it_response it = Inr response"
    "executeToolCalls env response st1 = Inr (st2, toolCalls t)"
    and l: "same_locals st st2"
    and t: "t = (newTurn it response st1)\<lparr> toolCalls := toolCalls t \<rparr>"
    and "tryBody env it st = Inr (iteration env it st)"
    and i: "iteration env it st =
       decideSleep it response t (detectStuck env t (persistTurn env it response t st2))"
    by (rule completedTurn_cases)
  from l i show "turn_trace (iteration env it st) = turn_trace st @ [t]"
    by (simp add: same_locals_def)
  have "turn_timestamp ((newTurn it response st1)\<lparr> toolCalls := toolCalls t \<rparr>) = it_now it"
    by (simp add: newTurn_def)
  with t show "turn_timestamp t = it_now it" by simp
qed

lemma iteration_no_turn:
  assumes "completedTurn env it st = None"
  shows "turn_trace (iteration env it st) = turn_trace st"
    and "lastToolName (iteration env it st) = lastToolName st"
    and "consecutiveSameTool (iteration env it st) = consecutiveSameTool st"
    and "running (iteration env it st) \<Longrightarrow> running st"
proof -
  have "turn_trace (iteration env it st) = turn_trace st \<and>
      lastToolName (iteration env it st) = lastToolName st \<and>
      consecutiveSameTool (iteration env it st) = consecutiveSameTool st \<and>
      (running (iteration env it st) \<longrightarrow> running st)"
  proof (cases rule: iteration_cases [of env it st])
    case (break st1)
    from break(1) have "lastToolName st1 = lastToolName st \<and>
        consecutiveSameTool st1 = consecutiveSameTool st"
      by (auto simp: beforeInference_def applyTier_def split: option.splits if_splits)
    with break beforeInference_Break [OF break(1)] show ?thesis by simp
  next
    case (thrown e st1)
    then show ?thesis
      by (auto simp: same_locals_def catchError_def Let_def split: if_splits)
  next
    case (turn st1 response st2 results)
    from turn(4,6) have "length (turn_trace (iteration env it st)) = Suc (length (turn_trace st))"
      by (simp add: same_locals_def)
    with assms show ?thesis by (simp add: completedTurn_def)
  qed
  then show "turn_trace (iteration env it st) = turn_trace st"
    and "lastToolName (iteration env it st) = lastToolName st"
    and "consecutiveSameTool (iteration env it st) = consecutiveSameTool st"
    and "running (iteration env it st) \<Longrightarrow> running st"
    by simp_all
qed

subsection \<open>The bootstrap phase and the invariants of a session\<close>

lemma bootstrap_locals:
  "turnsThisWake (bootstrap env (initLoop env d client)) = 3"
  "turn_trace (bootstrap env (initLoop env d client)) = []"
  "running (bootstrap env (initLoop env d client))"
  "consecutiveErrors (bootstrap env (initLoop env d client)) = 0"
  "consecutiveSameTool (bootstrap env (initLoop env d client)) = 0"
  "lastToolName (bootstrap env (initLoop env d client)) = []"
  "calledOnceTools (bootstrap env (initLoop env d client)) = {''check_economics''}"
  "executedCommands (bootstrap env (initLoop env d client)) = {}"
  "map fst (exec_trace (bootstrap env (initLoop env d client)))
     = [''check_economics'', ''exec'', ''exec'']"
  by (simp_all add: bootstrap_def bootstrapSteps_def bootstrapStep_def initLoop_def
      ONCE_PER_WAKE_TOOLS_def Let_def split: prod.split)

lemma turn_inv_iteration:
  assumes "turn_inv k st" "running st"
  shows "turn_inv k (iteration env it st)"
proof (cases rule: iteration_cases [of env it st])
  case (break st1)
  with beforeInference_Break [OF break(1)] assms show ?thesis
    by (simp add: turn_inv_def)
next
  case (thrown e st1)
  with assms show ?thesis
    by (auto simp: turn_inv_def same_locals_def)
next
  case (turn st1 response st2 results)
  define t where "t = (newTurn it response st1)\<lparr> toolCalls := results \<rparr>"
  define s where "s = detectStuck env t (persistTurn env it response t st2)"
  from turn(4) assms have s: "turnsThisWake s = k + length (turn_trace s)"
    "turnsThisWake s \<le> MAX_TURNS_PER_WAKE"
    by (auto simp: s_def turn_inv_def same_locals_def)
  have i: "iteration env it st = decideSleep it response t s"
    using turn(6) by (simp add: s_def t_def)
  have "turnsThisWake s = MAX_TURNS_PER_WAKE \<Longrightarrow>
     \<not> running (decideSleep it response t s) \<and>
     agent_state (database (decideSleep it response t s)) = Sleeping"
    by (simp add: decideSleep_def)
  with s show ?thesis
    by (simp add: i turn_inv_def)
qed

lemma turn_inv_mainLoop: "turn_inv k st \<Longrightarrow> turn_inv k (mainLoop env its st)"
  by (induction its arbitrary: st) (simp_all add: turn_inv_iteration)

lemma once_inv_cong:
  "exec_trace st' = exec_trace st \<Longrightarrow> calledOnceTools st' = calledOnceTools st \<Longrightarrow>
   once_inv st' = once_inv st"
  by (simp add: once_inv_def executed_names_def)

lemma runTool_once:
  assumes "once_inv st"
    and "\<not> (tc_name tc \<in> ONCE_PER_WAKE_TOOLS \<and> tc_name tc \<in> calledOnceTools st)"
    and "runTool env tc args command (st, rs, c) = (st', rs', c')"
  shows "once_inv st'"
proof -
  from assms(3) have tr: "executed_names st' = executed_names st @ [tc_name tc]"
    and ca: "calledOnceTools st' =
       (if tc_name tc \<in> ONCE_PER_WAKE_TOOLS then insert (tc_name tc) (calledOnceTools st)
        else calledOnceTools st)"
    by (auto simp: runTool_def Let_def executed_names_def split: prod.splits)
  show ?thesis
    unfolding once_inv_def
  proof
    fix n assume n: "n \<in> ONCE_PER_WAKE_TOOLS"
    with assms(1) have c: "count_list (executed_names st) n \<le> 1"
      and m: "n \<in> set (executed_names st) \<Longrightarrow> n \<in> calledOnceTools st"
      by (auto simp: once_inv_def)
    show "count_list (executed_names st') n \<le> 1 \<and>
        (n \<in> set (executed_names st') \<longrightarrow> n \<in> calledOnceTools st')"
    proof (cases "n = tc_name tc")
      case True
      with n assms(2) have "n \<notin> calledOnceTools st" by simp
      with m have "n \<notin> set (executed_names st)" by blast
      then have "count_list (executed_names st) n = 0" by simp
      with True n show ?thesis by (simp add: tr ca)
    next
      case False
      with c m show ?thesis by (auto simp: tr ca)
    qed
  qed
qed

lemma handleToolCall_once:
  assumes "once_inv st" and "handleToolCall env tc (st, rs, c) = Inr (st', rs', c')"
  shows "once_inv st'"
  using assms(2)
proof (cases rule: handleToolCall_cases)
  case blocked_once
  with assms(1) show ?thesis by simp
next
  case (blocked_exec command)
  with assms(1) show ?thesis by simp
next
  case (run command)
  from run(2) have
    "runTool env tc (parseArgs env (tc_arguments tc)) command (st, rs, c) = (st', rs', c')"
    by simp
  from runTool_once [OF assms(1) run(1) this] show ?thesis .
qed

lemma runTool_marks:
  assumes "runTool env tc args command (st, rs, c) = (st', rs', c')"
  shows "calledOnceTools st \<subseteq> calledOnceTools st'"
    and "tc_name tc \<in> ONCE_PER_WAKE_TOOLS \<Longrightarrow> tc_name tc \<in> calledOnceTools st'"
  using assms by (auto simp: runTool_def Let_def split: prod.splits)

lemma handleToolCall_marks:
  assumes "handleToolCall env tc (st, rs, c) = Inr (st', rs', c')"
  shows "calledOnceTools st \<subseteq> calledOnceTools st' \<and>
     (tc_name tc \<in> ONCE_PER_WAKE_TOOLS \<longrightarrow> tc_name tc \<in> calledOnceTools st')"
  using assms
proof (cases rule: handleToolCall_cases)
  case blocked_once
  then show ?thesis by simp
next
  case (blocked_exec command)
  then show ?thesis by (simp add: exec_not_once)
next
  case (run command)
  from run(2) have
    "runTool env tc (parseArgs env (tc_arguments tc)) command (st, rs, c) = (st', rs', c')"
    by simp
  from runTool_marks [OF this] show ?thesis by blast
qed

lemma toolLoop_once:
  "once_inv st \<Longrightarrow>
   (case toolLoop env tcs (st, rs, c) of
      Inl (e, s) \<Rightarrow> once_inv s
    | Inr (s, rs', c') \<Rightarrow> once_inv s)"
proof (induction tcs arbitrary: st rs c)
  case Nil
  then show ?case by simp
next
  case (Cons tc tcs)
  show ?case
  proof (cases "handleToolCall env tc (st, rs, c)")
    case (Inl ex)
    obtain e s where ex: "ex = (e, s)" by (cases ex) auto
    with Inl handleToolCall_Inl have "s = st" by metis
    with Inl ex Cons.prems show ?thesis by simp
  next
    case (Inr acc)
    obtain st1 rs1 c1 where acc: "acc = (st1, rs1, c1)" by (cases acc) auto
    from handleToolCall_once [OF Cons.prems Inr [unfolded acc]] have "once_inv st1" .
    from Cons.IH [OF this, of rs1 c1] Inr acc Cons.prems show ?thesis by simp
  qed
qed

lemma executeToolCalls_once:
  assumes "once_inv st"
  shows "(case executeToolCalls env response st of
      Inl (e, s) \<Rightarrow> once_inv s
    | Inr (s, rs) \<Rightarrow> once_inv s)"
proof (cases "resp_toolCalls response")
  case None
  with assms show ?thesis by (simp add: executeToolCalls_def)
next
  case (Some tcs)
  show ?thesis
  proof (cases "length tcs > 0")
    case False
    with Some assms show ?thesis by (simp add: executeToolCalls_def)
  next
    case True
    from toolLoop_once [OF assms, of env tcs "[]" 0] Some True show ?thesis
      by (cases "toolLoop env tcs (st, [], 0)") (auto simp: executeToolCalls_def)
  qed
qed

lemma applyTier_guards:
  "applyTier env tier st = Continue st1 \<or> applyTier env tier st = Break st1 \<Longrightarrow>
   exec_trace st1 = exec_trace st \<and> calledOnceTools st1 = calledOnceTools st"
  by (auto simp: applyTier_def split: if_splits)

lemma beforeInference_guards:
  "beforeInference env it st = Continue st1 \<or> beforeInference env it st = Break st1 \<Longrightarrow>
   exec_trace st1 = exec_trace st \<and> calledOnceTools st1 = calledOnceTools st"
  using applyTier_guards [of env "currentTier env it st" st st1]
  by (auto simp: beforeInference_def split: option.splits if_splits)

lemma iteration_once:
  assumes "once_inv st"
  shows "once_inv (iteration env it st)"
proof (cases "beforeInference env it st")
  case (Break st1)
  with beforeInference_guards [of env it st st1] assms show ?thesis
    by (simp add: iteration_def tryBody_def once_inv_cong [of st1 st])
next
  case (Continue st1)
  with beforeInference_guards [of env it st st1] assms have o1: "once_inv st1"
    by (simp add: once_inv_cong [of st1 st])
  show ?thesis
  proof (cases "it_response it")
    case (Inl e)
    with Continue o1 show ?thesis
      by (simp add: iteration_def tryBody_def once_inv_cong [of "catchError it st1" st1])
  next
    case (Inr response)
    show ?thesis
    proof (cases "executeToolCalls env response st1")
      case (Inl ex)
      obtain e s where ex: "ex = (e, s)" by (cases ex) auto
      from executeToolCalls_once [OF o1, of env response] Inl ex have "once_inv s" by simp
      with Continue Inr Inl ex show ?thesis
        by (simp add: iteration_def tryBody_def once_inv_cong [of "catchError it s" s])
    next
      case (Inr acc)
      obtain s rs where acc: "acc = (s, rs)" by (cases acc) auto
      from executeToolCalls_once [OF o1, of env response] Inr acc have "once_inv s" by simp
      then have o: "once_inv s" .
      from Continue \<open>it_response it = Inr response\<close> Inr acc
      have "exec_trace (iteration env it st) = exec_trace s"
        "calledOnceTools (iteration env it st) = calledOnceTools s"
        by (simp_all add: iteration_def tryBody_def Let_def)
      from once_inv_cong [OF this] o show ?thesis by simp
    qed
  qed
qed

lemma mainLoop_once: "once_inv st \<Longrightarrow> once_inv (mainLoop env its st)"
  by (induction its arbitrary: st) (simp_all add: iteration_once)

lemma bootstrap_once: "once_inv (bootstrap env (initLoop env d client))"
  by (simp add: once_inv_def executed_names_def bootstrap_locals ONCE_PER_WAKE_TOOLS_def)

subsection \<open>Evaluation of the concrete session\<close>

lemmas demo_defs = demo_env_def demo_iteration_def demo_response_def demo_call_def
  demo_parse_def demo_tool_def demo_read_def demo_two_def demo_silent_def demo_failure_def

lemmas pass_defs = iteration_def tryBody_def beforeInference_def applyTier_def currentTier_def
  executeToolCalls_def handleToolCall_def runTool_def parseArgs_def newTurn_def
  decideSleep_def detectStuck_def fingerprint_def sleepRequested_def catchError_def
  ONCE_PER_WAKE_TOOLS_def MAX_TOOL_CALLS_PER_TURN_def MAX_TURNS_PER_WAKE_def
  MAX_CONSECUTIVE_ERRORS_def Let_def

lemma demo_start_fields:
  "running demo_start" "turnsThisWake demo_start = 3" "consecutiveErrors demo_start = 0"
  "consecutiveSameTool demo_start = 0" "lastToolName demo_start = []"
  "calledOnceTools demo_start = {''check_economics''}"
  "executedCommands demo_start = {}"
  "turn_trace demo_start = []"
  "kv_sleep_until (database demo_start) = None"
  "agent_state (database demo_start) = Running"
  "inference demo_start = demo_client"
  by (simp_all add: demo_start_def bootstrap_def bootstrapSteps_def bootstrapStep_def
      initLoop_def demo_env_def demo_tool_def ONCE_PER_WAKE_TOOLS_def insertToolCall_def
      insertTurn_def Let_def)

lemma demo_start_trace:
  "executed_names demo_start = [''check_economics'', ''exec'', ''exec'']"
  by (simp add: executed_names_def demo_start_def bootstrap_locals)

lemma demo_read1_fields:
  "running demo_read1" "turnsThisWake demo_read1 = 4" "consecutiveErrors demo_read1 = 0"
  "consecutiveSameTool demo_read1 = 1" "lastToolName demo_read1 = ''read_file''"
  "calledOnceTools demo_read1 = {''check_economics''}"
  "executedCommands demo_read1 = {}"
  "length (turn_trace demo_read1) = 1"
  "kv_sleep_until (database demo_read1) = None"
  "agent_state (database demo_read1) = Running"
  "inference demo_read1 = demo_client"
  by (simp_all add: demo_read1_def pass_defs demo_defs demo_start_fields
     setLowComputeMode_def demo_client_def setAgentState_def)

lemma demo_read1_turn:
  "toolCalls (last (turn_trace demo_read1)) =
     [\<lparr> tcr_id = ''call_1'', tcr_name = ''read_file'', tcr_arguments = JObj [],
        tcr_result = ''ok'', tcr_durationMs = 1, tcr_error = None \<rparr>]"
  by (simp add: demo_read1_def pass_defs demo_defs demo_start_fields
     setLowComputeMode_def demo_client_def setAgentState_def)

lemma demo_read2_fields:
  "running demo_read2" "turnsThisWake demo_read2 = 5" "consecutiveErrors demo_read2 = 0"
  "consecutiveSameTool demo_read2 = 2" "lastToolName demo_read2 = ''read_file''"
  "calledOnceTools demo_read2 = {''check_economics''}"
  "executedCommands demo_read2 = {}"
  "length (turn_trace demo_read2) = 2"
  "kv_sleep_until (database demo_read2) = None"
  "agent_state (database demo_read2) = Running"
  "inference demo_read2 = demo_client"
  by (simp_all add: demo_read2_def pass_defs demo_defs demo_read1_fields
     setLowComputeMode_def demo_client_def setAgentState_def)

lemma demo_read2_turn:
  "toolCalls (last (turn_trace demo_read2)) =
     [\<lparr> tcr_id = ''call_1'', tcr_name = ''read_file'', tcr_arguments = JObj [],
        tcr_result = ''ok'', tcr_durationMs = 1, tcr_error = None \<rparr>]"
  by (simp add: demo_read2_def pass_defs demo_defs demo_read1_fields
     setLowComputeMode_def demo_client_def setAgentState_def)

lemma demo_read3_fields:
  "\<not> running demo_read3" "turnsThisWake demo_read3 = 6"
  "consecutiveSameTool demo_read3 = 3" "lastToolName demo_read3 = ''read_file''"
  "length (turn_trace demo_read3) = 3"
  "kv_sleep_until (database demo_read3) = Some 602000"
  "agent_state (database demo_read3) = Sleeping"
  by (simp_all add: demo_read3_def pass_defs demo_defs demo_read2_fields forceSleep_def
     setLowComputeMode_def demo_client_def setAgentState_def setSleepUntil_def)

lemma demo_read3_turn:
  "toolCalls (last (turn_trace demo_read3)) =
     [\<lparr> tcr_id = ''call_1'', tcr_name = ''read_file'', tcr_arguments = JObj [],
        tcr_result = ''ok'', tcr_durationMs = 1, tcr_error = None \<rparr>]"
  by (simp add: demo_read3_def pass_defs demo_defs demo_read2_fields forceSleep_def
     setLowComputeMode_def demo_client_def setAgentState_def setSleepUntil_def)

lemma demo_quiet_fields:
  "running demo_quiet" "consecutiveSameTool demo_quiet = 2"
  "lastToolName demo_quiet = ''read_file''"
  "length (turn_trace demo_quiet) = 3"
  "toolCalls (last (turn_trace demo_quiet)) = []"
  by (simp_all add: demo_quiet_def pass_defs demo_defs demo_read2_fields forceSleep_def
     setLowComputeMode_def demo_client_def setAgentState_def setSleepUntil_def)

lemma demo_pair_fields:
  "running demo_pair" "consecutiveSameTool demo_pair = 0"
  "lastToolName demo_pair = []"
  "length (turn_trace demo_pair) = 3"
  "length (toolCalls (last (turn_trace demo_pair))) = 2"
  by (simp_all add: demo_pair_def pass_defs demo_defs demo_read2_fields forceSleep_def
     setLowComputeMode_def demo_client_def setAgentState_def setSleepUntil_def)

lemma demo_failure_pass:
  assumes "kv_sleep_until (database st) = None" "agent_state (database st) = Running"
    "inference st = demo_client"
  shows "tryBody demo_env demo_failure st = Inl (''Inference error'', st)"
    and "iteration demo_env demo_failure st = catchError demo_failure st"
proof -
  from assms show "tryBody demo_env demo_failure st = Inl (''Inference error'', st)"
    by (simp add: tryBody_def beforeInference_def applyTier_def currentTier_def demo_env_def
        demo_failure_def setLowComputeMode_def demo_client_def inference_update_same)
  then show "iteration demo_env demo_failure st = catchError demo_failure st"
    by (simp add: iteration_def)
qed

lemma demo_fail1_fields:
  "running demo_fail1" "consecutiveErrors demo_fail1 = 1"
  "kv_sleep_until (database demo_fail1) = None"
  "agent_state (database demo_fail1) = Running"
  "inference demo_fail1 = demo_client"
  "turn_trace demo_fail1 = []" "turnsThisWake demo_fail1 = 3"
  "consecutiveSameTool demo_fail1 = 0" "lastToolName demo_fail1 = []"
  "calledOnceTools demo_fail1 = {''check_economics''}"
  "executedCommands demo_fail1 = {}"
  by (simp_all add: demo_fail1_def demo_failure_pass demo_start_fields catchError_database)

lemma demo_fail4_fields:
  "running demo_fail4" "consecutiveErrors demo_fail4 = 4"
  "kv_sleep_until (database demo_fail4) = None"
  "agent_state (database demo_fail4) = Running"
  "inference demo_fail4 = demo_client"
  by (simp_all add: demo_fail4_def demo_failure_pass demo_fail1_fields catchError_database)

lemma demo_recovered_fields:
  "running demo_recovered" "consecutiveErrors demo_recovered = 0"
  "tryBody demo_env demo_read demo_fail1 = Inr demo_recovered"
  "consecutiveSameTool demo_recovered = 1" "turnsThisWake demo_recovered = 4"
  "length (turn_trace demo_recovered) = 1"
  "\<not> sleepRequested (last (turn_trace demo_recovered))"
  by (simp_all add: demo_recovered_def pass_defs demo_defs demo_fail1_fields
     setLowComputeMode_def demo_client_def setAgentState_def)

lemma demo_twelve_blocked:
  "executeToolCalls demo_env (demo_response demo_twelve ''tool_calls'') demo_start =
     Inr (demo_start, [demo_blocked, demo_blocked, demo_blocked, demo_blocked, demo_blocked,
                       demo_blocked, demo_blocked, demo_blocked, demo_blocked, demo_blocked])"
  by (simp add: executeToolCalls_def demo_twelve_def demo_response_def demo_call_def
      handleToolCall_def demo_start_fields ONCE_PER_WAKE_TOOLS_def parseArgs_def demo_env_def
      demo_parse_def demo_blocked_def MAX_TOOL_CALLS_PER_TURN_def Let_def)

lemma demo_flood_fields:
  "length (turn_trace demo_flood) = 1"
  "toolCalls (last (turn_trace demo_flood)) =
     [demo_blocked, demo_blocked, demo_blocked, demo_blocked, demo_blocked,
      demo_blocked, demo_blocked, demo_blocked, demo_blocked, demo_blocked]"
  "exec_trace demo_flood = exec_trace demo_start"
proof -
  have b: "beforeInference demo_env (demo_iteration demo_twelve ''tool_calls'') demo_start
     = Continue demo_start"
    by (simp add: beforeInference_def applyTier_def currentTier_def demo_env_def
        demo_start_fields setLowComputeMode_def demo_client_def inference_update_same)
  have i: "it_response (demo_iteration demo_twelve ''tool_calls'')
     = Inr (demo_response demo_twelve ''tool_calls'')"
    by (simp add: demo_iteration_def)
  show "length (turn_trace demo_flood) = 1"
    "toolCalls (last (turn_trace demo_flood)) =
     [demo_blocked, demo_blocked, demo_blocked, demo_blocked, demo_blocked,
      demo_blocked, demo_blocked, demo_blocked, demo_blocked, demo_blocked]"
    "exec_trace demo_flood = exec_trace demo_start"
    by (simp_all add: demo_flood_def iteration_def tryBody_def b i demo_twelve_blocked Let_def
        demo_start_fields)
qed

lemma demo_ls1_fields:
  "executedCommands demo_ls1 = {''ls''}"
  "get_command (parseArgs demo_env (tc_arguments demo_ls)) = Inr (Some (JStr ''ls''))"
  "parseArgs demo_env (tc_arguments demo_ls) = JObj [(''command'', JStr ''ls'')]"
  "String_trim demo_env (String_js demo_env (Some (JStr ''ls''))) = ''ls''"
  by (simp_all add: demo_ls1_def demo_ls_def pass_defs demo_defs demo_start_fields
     setLowComputeMode_def demo_client_def setAgentState_def truthy_opt_def String_js_def
     demo_trim_def demo_is_space_def)

lemma demo_two_pass:
  assumes "demo_steady st"
  shows "turnsThisWake (iteration demo_env demo_two st) = Suc (turnsThisWake st)"
    and "length (turn_trace (iteration demo_env demo_two st)) = Suc (length (turn_trace st))"
    and "Suc (turnsThisWake st) < 20 \<Longrightarrow> demo_steady (iteration demo_env demo_two st)"
    and "Suc (turnsThisWake st) \<ge> 20 \<Longrightarrow>
           \<not> running (iteration demo_env demo_two st) \<and>
           agent_state (database (iteration demo_env demo_two st)) = Sleeping \<and>
           kv_sleep_until (database (iteration demo_env demo_two st)) = Some 602000"
  using assms
  by (simp_all add: demo_steady_def pass_defs demo_defs forceSleep_def
     setLowComputeMode_def demo_client_def setAgentState_def setSleepUntil_def)

lemma demo_two_loop:
  "demo_steady st \<Longrightarrow> turnsThisWake st + n < 20 \<Longrightarrow>
   demo_steady (mainLoop demo_env (replicate n demo_two) st) \<and>
   turnsThisWake (mainLoop demo_env (replicate n demo_two) st) = turnsThisWake st + n \<and>
   length (turn_trace (mainLoop demo_env (replicate n demo_two) st))
     = length (turn_trace st) + n"
proof (induction n arbitrary: st)
  case 0
  then show ?case by simp
next
  case (Suc n)
  from Suc.prems have r: "running st" by (simp add: demo_steady_def)
  from Suc.prems demo_two_pass [OF Suc.prems(1)]
  have "demo_steady (iteration demo_env demo_two st)"
    "turnsThisWake (iteration demo_env demo_two st) + n < 20"
    by simp_all
  from Suc.IH [OF this] r demo_two_pass(1,2) [OF Suc.prems(1)] show ?case
    by simp
qed

lemma demo_full_fields:
  "length (turn_trace demo_full) = 17" "\<not> running demo_full"
  "agent_state (database demo_full) = Sleeping"
  "kv_sleep_until (database demo_full) = Some 602000"
  "turnsThisWake demo_full = 20"
proof -
  have s: "demo_steady demo_start"
    by (simp add: demo_steady_def demo_start_fields)
  define s16 where "s16 = mainLoop demo_env (replicate 16 demo_two) demo_start"
  from demo_two_loop [OF s, of 16] have s16: "demo_steady s16" "turnsThisWake s16 = 19"
    "length (turn_trace s16) = 16"
    by (simp_all add: s16_def demo_start_fields)
  have "(17::nat) = Suc 16" by simp
  then have "replicate 17 demo_two = replicate 16 demo_two @ [demo_two]"
    by (simp only: replicate_Suc replicate_append_same)
  then have "demo_full = mainLoop demo_env [demo_two] s16"
    by (simp add: demo_full_def runAgentLoop_def demo_start_def [symmetric] mainLoop_append
        s16_def)
  with s16 have f: "demo_full = iteration demo_env demo_two s16"
    by (simp add: demo_steady_def)
  from demo_two_pass [OF s16(1)] s16 show "length (turn_trace demo_full) = 17"
    "\<not> running demo_full" "agent_state (database demo_full) = Sleeping"
    "kv_sleep_until (database demo_full) = Some 602000" "turnsThisWake demo_full = 20"
    by (simp_all add: f)
qed

lemma demo_checked_fields:
  "executed_names demo_checked = [''check_economics'', ''exec'', ''exec'', ''check_health'']"
  "calledOnceTools demo_checked = {''check_health'', ''check_economics''}"
  "map tcr_durationMs (toolCalls (last (turn_trace demo_checked))) = [0, 1, 0]"
proof -
  have c: "demo_checked = iteration demo_env demo_status demo_start"
    by (simp add: demo_checked_def runAgentLoop_def demo_start_def [symmetric]
        demo_start_fields)
  from demo_start_trace
  show "executed_names demo_checked = [''check_economics'', ''exec'', ''exec'', ''check_health'']"
    "calledOnceTools demo_checked = {''check_health'', ''check_economics''}"
    "map tcr_durationMs (toolCalls (last (turn_trace demo_checked))) = [0, 1, 0]"
    unfolding c
    by (simp_all add: demo_start_fields demo_status_def pass_defs demo_defs executed_names_def
        setLowComputeMode_def demo_client_def setAgentState_def blockedOnce_def)
qed

text \<open>
  The session in which the backend fails once between the turns, and the session that
  repeats the command of the third bootstrap step.
\<close>

lemma demo_retry1_fields:
  "running demo_retry1" "consecutiveErrors demo_retry1 = 1"
  "kv_sleep_until (database demo_retry1) = None"
  "agent_state (database demo_retry1) = Running"
  "inference demo_retry1 = demo_client"
  "turn_trace demo_retry1 = turn_trace demo_read1" "turnsThisWake demo_retry1 = 4"
  "consecutiveSameTool demo_retry1 = 1" "lastToolName demo_retry1 = ''read_file''"
  "calledOnceTools demo_retry1 = {''check_economics''}"
  "executedCommands demo_retry1 = {}"
  by (simp_all add: demo_retry1_def demo_failure_pass demo_read1_fields catchError_database)

lemma demo_read1_run:
  "trailing_matches demo_env ''read_file'' (turn_trace demo_read1) = 1"
  "turn_timestamp (last (turn_trace demo_read1)) = 2000"
  by (simp_all add: demo_read1_def pass_defs demo_defs demo_start_fields
     setLowComputeMode_def demo_client_def setAgentState_def single_call_def
     trailing_matches_def)

lemma demo_retry2_fields:
  "running demo_retry2" "turnsThisWake demo_retry2 = 5" "consecutiveErrors demo_retry2 = 0"
  "consecutiveSameTool demo_retry2 = 2" "lastToolName demo_retry2 = ''read_file''"
  "calledOnceTools demo_retry2 = {''check_economics''}"
  "executedCommands demo_retry2 = {}"
  "trailing_matches demo_env ''read_file'' (turn_trace demo_retry2) = 2"
  "length (turn_trace demo_retry2) = 2"
  "kv_sleep_until (database demo_retry2) = None"
  "agent_state (database demo_retry2) = Running"
  "inference demo_retry2 = demo_client"
  by (simp_all add: demo_retry2_def pass_defs demo_defs demo_retry1_fields
     demo_read1_fields demo_read1_run [unfolded demo_env_def] setLowComputeMode_def
     demo_client_def setAgentState_def single_call_def)

lemma demo_retry3_fields:
  "\<not> running demo_retry3"
  "consecutiveSameTool demo_retry3 = 3" "lastToolName demo_retry3 = ''read_file''"
  "trailing_matches demo_env ''read_file'' (turn_trace demo_retry3) = 3"
  "length (turn_trace demo_retry3) = 3"
  "turn_timestamp (last (turn_trace demo_retry3)) = 2000"
  "kv_sleep_until (database demo_retry3) = Some 602000"
  "agent_state (database demo_retry3) = Sleeping"
  by (simp_all add: demo_retry3_def pass_defs demo_defs
     demo_retry2_fields [unfolded demo_env_def] forceSleep_def setLowComputeMode_def
     demo_client_def setAgentState_def setSleepUntil_def single_call_def)

lemma demo_retry3_session:
  "runAgentLoop demo_env demo_db demo_client [demo_read, demo_failure, demo_read, demo_read]
     = demo_retry3"
  by (simp add: runAgentLoop_def demo_start_def [symmetric] demo_start_fields
      demo_read1_def [symmetric] demo_read1_fields demo_retry1_def [symmetric]
      demo_retry1_fields demo_retry2_def [symmetric] demo_retry2_fields
      demo_retry3_def [symmetric])

lemma demo_again1_fields:
  "running demo_again1" "turnsThisWake demo_again1 = 4" "consecutiveErrors demo_again1 = 0"
  "consecutiveSameTool demo_again1 = 1"
  "lastToolName demo_again1 = demo_probe_fp"
  "calledOnceTools demo_again1 = {''check_economics''}"
  "executedCommands demo_again1 = {demo_probe}"
  "kv_sleep_until (database demo_again1) = None"
  "agent_state (database demo_again1) = Running"
  "inference demo_again1 = demo_client"
  by (simp_all add: demo_again1_def demo_again_def pass_defs demo_defs demo_start_fields
     setLowComputeMode_def demo_client_def setAgentState_def truthy_opt_def String_js_def
     demo_trim_def demo_is_space_def)

lemma demo_start_stored:
  "length (db_turns (database demo_start)) = 3"
  "trailing_matches demo_env demo_probe_fp (db_turns (database demo_start)) = 1"
  by (simp_all add: demo_start_def bootstrap_def bootstrapSteps_def bootstrapStep_def
      initLoop_def demo_env_def demo_tool_def ONCE_PER_WAKE_TOOLS_def insertToolCall_def
      insertTurn_def Let_def demo_db_def trailing_matches_def single_call_def
      fingerprint_def truthy_opt_def String_js_def)

lemma demo_again1_run:
  "trailing_matches demo_env demo_probe_fp (turn_trace demo_again1) = 1"
  by (simp add: demo_again1_def demo_again_def pass_defs demo_defs demo_start_fields
     setLowComputeMode_def demo_client_def setAgentState_def truthy_opt_def String_js_def
     demo_trim_def demo_is_space_def single_call_def trailing_matches_def)

lemma demo_again1_stored:
  "length (db_turns (database demo_again1)) = 4"
  "trailing_matches demo_env demo_probe_fp (db_turns (database demo_again1)) = 2"
  by (simp_all add: demo_again1_def demo_again_def pass_defs demo_defs demo_start_fields
     demo_start_stored [unfolded demo_env_def] persistTurn_turns
     setLowComputeMode_def demo_client_def setAgentState_def truthy_opt_def String_js_def
     demo_trim_def demo_is_space_def single_call_def)

lemma demo_again2_fields:
  "running demo_again2" "consecutiveSameTool demo_again2 = 2"
  "lastToolName demo_again2 = demo_probe_fp"
  "turnsThisWake demo_again2 = 5"
  "calledOnceTools demo_again2 = {''check_economics''}"
  "executedCommands demo_again2 = {demo_probe}"
  "inference demo_again2 = demo_client"
  "kv_sleep_until (database demo_again2) = None"
  "agent_state (database demo_again2) = Running"
  "length (db_turns (database demo_again2)) = 5"
  "trailing_matches demo_env demo_probe_fp (db_turns (database demo_again2)) = 3"
  "trailing_matches demo_env demo_probe_fp (turn_trace demo_again2) = 2"
  by (simp_all add: demo_again2_def demo_again_def pass_defs demo_defs demo_again1_fields
     demo_again1_stored [unfolded demo_env_def] demo_again1_run [unfolded demo_env_def]
     persistTurn_turns blockedExec_def
     setLowComputeMode_def demo_client_def setAgentState_def truthy_opt_def String_js_def
     demo_trim_def demo_is_space_def single_call_def)

lemma demo_again3_fields:
  "\<not> running demo_again3" "consecutiveSameTool demo_again3 = 3"
  "length (db_turns (database demo_again3)) = 6"
  "trailing_matches demo_env demo_probe_fp (db_turns (database demo_again3)) = 4"
  by (simp_all add: demo_again3_def demo_again_def pass_defs demo_defs demo_again2_fields
     demo_again2_fields [unfolded demo_env_def]
     persistTurn_turns blockedExec_def forceSleep_def setSleepUntil_def
     setLowComputeMode_def demo_client_def setAgentState_def truthy_opt_def String_js_def
     demo_trim_def demo_is_space_def single_call_def)

subsection \<open>The repetition counter\<close>

text \<open>
  C2 (as the code has it). After a pass of the main loop that completes a turn \<open>t\<close>, the
  repetition counter and the remembered fingerprint are: for exactly one tool-call result,
  the counter plus one when the fingerprint of the result equals the remembered fingerprint,
  and otherwise 1, with the fingerprint of the result remembered; for more than one result,
  0 and the empty fingerprint; for no result, the counter and the remembered fingerprint as
  they were.
\<close>

theorem repetition_counter_update:
  assumes "completedTurn env it st = Some t"
  shows "consecutiveSameTool (iteration env it st) =
           (if length (toolCalls t) = 1
            then (if fingerprint env (hd (toolCalls t)) = lastToolName st
                  then consecutiveSameTool st + 1 else 1)
            else if length (toolCalls t) > 1 then 0
            else consecutiveSameTool st) \<and>
         lastToolName (iteration env it st) =
           (if length (toolCalls t) = 1 then fingerprint env (hd (toolCalls t))
            else if length (toolCalls t) > 1 then []
            else lastToolName st)"
  using iteration_counter [OF assms] by simp

text \<open>
  After the bootstrap phase a turn with a single \<open>read_file\<close> sets the counter to 1 and a
  second such turn takes it to 2; a turn with two calls then resets it to 0, and a turn
  without calls leaves it at 2.
\<close>

theorem repetition_counter_update_witness:
  "completedTurn demo_env demo_read demo_start = Some (last (turn_trace demo_read1)) \<and>
   length (toolCalls (last (turn_trace demo_read1))) = 1 \<and>
   fingerprint demo_env (hd (toolCalls (last (turn_trace demo_read1)))) \<noteq> lastToolName demo_start \<and>
   consecutiveSameTool (iteration demo_env demo_read demo_start) = 1 \<and>
   completedTurn demo_env demo_read demo_read1 = Some (last (turn_trace demo_read2)) \<and>
   length (toolCalls (last (turn_trace demo_read2))) = 1 \<and>
   fingerprint demo_env (hd (toolCalls (last (turn_trace demo_read2)))) = lastToolName demo_read1 \<and>
   consecutiveSameTool demo_read1 = 1 \<and>
   consecutiveSameTool (iteration demo_env demo_read demo_read1) = 2 \<and>
   lastToolName (iteration demo_env demo_read demo_read1) = ''read_file'' \<and>
   completedTurn demo_env demo_two demo_read2 = Some (last (turn_trace demo_pair)) \<and>
   length (toolCalls (last (turn_trace demo_pair))) = 2 \<and>
   consecutiveSameTool (iteration demo_env demo_two demo_read2) = 0 \<and>
   lastToolName (iteration demo_env demo_two demo_read2) = [] \<and>
   completedTurn demo_env demo_silent demo_read2 = Some (last (turn_trace demo_quiet)) \<and>
   length (toolCalls (last (turn_trace demo_quiet))) = 0 \<and>
   consecutiveSameTool demo_read2 = 2 \<and>
   consecutiveSameTool (iteration demo_env demo_silent demo_read2) = 2 \<and>
   lastToolName (iteration demo_env demo_silent demo_read2) = ''read_file''"
proof -
  have h0: "completedTurn demo_env demo_read demo_start = Some (last (turn_trace demo_read1))"
    unfolding demo_read1_def
    by (rule completedTurn_last)
      (simp add: demo_read1_fields [unfolded demo_read1_def] demo_start_fields)
  have h1: "completedTurn demo_env demo_read demo_read1 = Some (last (turn_trace demo_read2))"
    unfolding demo_read2_def
    by (rule completedTurn_last)
      (simp add: demo_read2_fields [unfolded demo_read2_def] demo_read1_fields)
  have h2: "completedTurn demo_env demo_two demo_read2 = Some (last (turn_trace demo_pair))"
    unfolding demo_pair_def
    by (rule completedTurn_last)
      (simp add: demo_pair_fields [unfolded demo_pair_def] demo_read2_fields)
  have h3: "completedTurn demo_env demo_silent demo_read2 = Some (last (turn_trace demo_quiet))"
    unfolding demo_quiet_def
    by (rule completedTurn_last)
      (simp add: demo_quiet_fields [unfolded demo_quiet_def] demo_read2_fields)
  have f: "fingerprint demo_env (hd (toolCalls (last (turn_trace demo_read1)))) = ''read_file''"
    "fingerprint demo_env (hd (toolCalls (last (turn_trace demo_read2)))) = ''read_file''"
    by (simp_all add: demo_read1_turn demo_read2_turn fingerprint_def)
  from repetition_counter_update [OF h0] repetition_counter_update [OF h1]
    repetition_counter_update [OF h2] repetition_counter_update [OF h3] h0 h1 h2 h3 f
  show ?thesis
    by (simp add: demo_read1_turn demo_read2_turn demo_start_fields demo_read1_fields
        demo_read2_fields demo_pair_fields demo_quiet_fields)
qed

text \<open>
  A turn without tool calls does not reset the counter: after two turns with a single
  \<open>read_file\<close>, a turn in which the backend requests no call (and gives a finish reason
  other than \<open>stop\<close>) leaves the counter at 2.
\<close>

theorem repetition_counter_zero_calls_counterexample:
  "completedTurn demo_env demo_silent demo_read2 = Some (last (turn_trace demo_quiet)) \<and>
   length (toolCalls (last (turn_trace demo_quiet))) = 0 \<and>
   consecutiveSameTool demo_read2 = 2 \<and>
   consecutiveSameTool (iteration demo_env demo_silent demo_read2) = 2 \<and>
   consecutiveSameTool (iteration demo_env demo_silent demo_read2) \<noteq> 0"
proof -
  have h: "completedTurn demo_env demo_silent demo_read2 = Some (last (turn_trace demo_quiet))"
    unfolding demo_quiet_def
    by (rule completedTurn_last)
      (simp add: demo_quiet_fields [unfolded demo_quiet_def] demo_read2_fields)
  with demo_quiet_fields [unfolded demo_quiet_def] demo_read2_fields show ?thesis
    by (simp add: demo_quiet_def)
qed

subsection \<open>The stuck-loop rule\<close>

text \<open>
  The fingerprint of a result is the name of the tool, and for an \<open>exec\<close> whose command is
  a non-empty string, \<open>exec:\<close> followed by the first 80 characters of the command.
\<close>

lemma fingerprint_cases:
  "tcr_name r \<noteq> ''exec'' \<Longrightarrow> fingerprint env r = tcr_name r"
  "tcr_name r = ''exec'' \<Longrightarrow> tcr_arguments r = JObj kvs \<Longrightarrow>
     map_of kvs ''command'' = Some (JStr s) \<Longrightarrow> s \<noteq> [] \<Longrightarrow>
     fingerprint env r = ''exec:'' @ take 80 s"
  by (simp_all add: fingerprint_def truthy_opt_def String_js_def)

text \<open>
  The invariant of the repetition counter holds after the bootstrap phase, and every pass
  preserves it, whether the pass completes a turn, throws or leaves the loop.
\<close>

lemma stuck_inv_running:
  assumes "stuck_inv env st" "running st"
  shows "trailing_matches env f (turn_trace st) < 3"
proof (cases "trailing_matches env f (turn_trace st) \<ge> 1")
  case True
  with assms show ?thesis by (auto simp: stuck_inv_def)
next
  case False
  then show ?thesis by simp
qed

lemma stuck_inv_iteration:
  assumes inv: "stuck_inv env st" and run: "running st"
  shows "stuck_inv env (iteration env it st)"
proof (cases "completedTurn env it st")
  case None
  note n = iteration_no_turn [OF None]
  from inv run have c: "consecutiveSameTool st < 3" by (simp add: stuck_inv_def)
  have "trailing_matches env f (turn_trace st) \<noteq> 3" for f
    using stuck_inv_running [OF inv run, of f] by simp
  with inv c show ?thesis
    by (simp add: stuck_inv_def n(1,2,3))
next
  case (Some t)
  note tr = completedTurn_trace [OF Some]
  note cnt = iteration_counter [OF Some]
  define s where "s = iteration env it st"
  have one: "lastToolName s = f \<and>
      trailing_matches env f (turn_trace s) \<le> consecutiveSameTool s"
    if h: "trailing_matches env f (turn_trace s) \<ge> 1" for f
  proof -
    from h have sc: "single_call env t f"
      by (simp add: s_def tr(1) split: if_splits)
    then have l: "length (toolCalls t) = 1" and fp: "fingerprint env (hd (toolCalls t)) = f"
      by (simp_all add: single_call_def)
    from sc have tl: "trailing_matches env f (turn_trace s)
        = Suc (trailing_matches env f (turn_trace st))"
      by (simp add: s_def tr(1))
    show ?thesis
    proof (cases "trailing_matches env f (turn_trace st) \<ge> 1")
      case True
      with inv have "lastToolName st = f"
        "trailing_matches env f (turn_trace st) \<le> consecutiveSameTool st"
        by (auto simp: stuck_inv_def)
      with cnt l fp tl show ?thesis by (simp add: s_def)
    next
      case False
      then have "trailing_matches env f (turn_trace st) = 0" by simp
      with cnt l fp tl show ?thesis by (simp add: s_def)
    qed
  qed
  have two: "consecutiveSameTool s < 3" if "running s"
  proof (rule ccontr)
    assume "\<not> consecutiveSameTool s < 3"
    then have "consecutiveSameTool (iteration env it st) \<ge> 3" by (simp add: s_def)
    from iteration_stuck [OF Some this] that show False by (simp add: s_def)
  qed
  have three: "trailing_matches env f (turn_trace s) \<le> 3 \<and>
      (trailing_matches env f (turn_trace s) = 3 \<longrightarrow>
         \<not> running s \<and> agent_state (database s) = Sleeping \<and>
         kv_sleep_until (database s) = Some (turn_timestamp (last (turn_trace s)) + 600000))"
    for f
  proof -
    from stuck_inv_running [OF inv run, of f]
    have le: "trailing_matches env f (turn_trace s) \<le> 3"
      by (simp add: s_def tr(1))
    have "\<not> running s \<and> agent_state (database s) = Sleeping \<and>
         kv_sleep_until (database s) = Some (turn_timestamp (last (turn_trace s)) + 600000)"
      if e: "trailing_matches env f (turn_trace s) = 3"
    proof -
      from e one [of f] have "consecutiveSameTool (iteration env it st) \<ge> 3"
        by (simp add: s_def)
      from iteration_stuck [OF Some this] tr show ?thesis
        by (simp add: s_def)
    qed
    with le show ?thesis by blast
  qed
  from one two three show ?thesis
    unfolding stuck_inv_def s_def by blast
qed

lemma stuck_inv_mainLoop: "stuck_inv env st \<Longrightarrow> stuck_inv env (mainLoop env its st)"
  by (induction its arbitrary: st) (simp_all add: stuck_inv_iteration)

lemma stuck_inv_bootstrap: "stuck_inv env (bootstrap env (initLoop env d client))"
  by (simp add: stuck_inv_def bootstrap_locals)

text \<open>
  C4 (as the code has it). In every session, whatever the observations, the turns of the
  main loop never end in more than three consecutive turns that each have exactly one
  tool-call result with one and the same fingerprint \<open>f\<close>; and when the last three turns
  are such turns, the session has ended: \<open>running\<close> is cleared, the agent state is
  \<open>sleeping\<close>, the stored deadline is the time of the third of these turns plus 600000
  milliseconds, and whatever observations follow, the loop makes no further pass. Passes
  between the three turns that complete no turn (the backend failed, say) do not interrupt
  the run. The turns counted are those of the main loop, which a pass completes and
  appends with the time of the pass as timestamp; the synthetic turns of the bootstrap
  phase are stored but not fingerprinted.
\<close>

theorem stuck_loop_forces_sleep:
  "trailing_matches env f (turn_trace (runAgentLoop env d client its)) \<le> 3 \<and>
   (trailing_matches env f (turn_trace (runAgentLoop env d client its)) = 3 \<longrightarrow>
      \<not> running (runAgentLoop env d client its) \<and>
      agent_state (database (runAgentLoop env d client its)) = Sleeping \<and>
      kv_sleep_until (database (runAgentLoop env d client its))
        = Some (turn_timestamp (last (turn_trace (runAgentLoop env d client its))) + 600000) \<and>
      runAgentLoop env d client (its @ extra) = runAgentLoop env d client its) \<and>
   (completedTurn env it st = Some t \<longrightarrow>
      turn_trace (iteration env it st) = turn_trace st @ [t] \<and> turn_timestamp t = it_now it)"
proof -
  have "stuck_inv env (runAgentLoop env d client its)"
    unfolding runAgentLoop_def by (rule stuck_inv_mainLoop) (rule stuck_inv_bootstrap)
  then have a: "trailing_matches env f (turn_trace (runAgentLoop env d client its)) \<le> 3"
    and b: "trailing_matches env f (turn_trace (runAgentLoop env d client its)) = 3 \<Longrightarrow>
      \<not> running (runAgentLoop env d client its) \<and>
      agent_state (database (runAgentLoop env d client its)) = Sleeping \<and>
      kv_sleep_until (database (runAgentLoop env d client its))
        = Some (turn_timestamp (last (turn_trace (runAgentLoop env d client its))) + 600000)"
    by (simp_all add: stuck_inv_def)
  have c: "runAgentLoop env d client (its @ extra) = runAgentLoop env d client its"
    if "trailing_matches env f (turn_trace (runAgentLoop env d client its)) = 3"
    using b [OF that] by (simp add: runAgentLoop_def mainLoop_append mainLoop_halted)
  from a b c completedTurn_trace [of env it st t] show ?thesis by blast
qed

text \<open>
  After the bootstrap phase: a turn with a single \<open>read_file\<close>, a pass in which the
  backend fails, and two more turns with a single \<open>read_file\<close>. The session ends in
  \<open>sleeping\<close> with the deadline 602000, and a further observation changes nothing.
\<close>

theorem stuck_loop_forces_sleep_witness:
  "trailing_matches demo_env ''read_file'' (turn_trace demo_retry3) = 3 \<and>
   runAgentLoop demo_env demo_db demo_client [demo_read, demo_failure, demo_read, demo_read]
     = demo_retry3 \<and>
   \<not> running demo_retry3 \<and>
   agent_state (database demo_retry3) = Sleeping \<and>
   kv_sleep_until (database demo_retry3)
     = Some (turn_timestamp (last (turn_trace demo_retry3)) + 600000) \<and>
   runAgentLoop demo_env demo_db demo_client
     ([demo_read, demo_failure, demo_read, demo_read] @ [demo_two]) = demo_retry3 \<and>
   completedTurn demo_env demo_read demo_retry2 = Some (last (turn_trace demo_retry3)) \<and>
   turn_trace demo_retry3 = turn_trace demo_retry2 @ [last (turn_trace demo_retry3)] \<and>
   turn_timestamp (last (turn_trace demo_retry3)) = it_now demo_read \<and>
   kv_sleep_until (database demo_retry3) = Some 602000"
proof -
  have c: "completedTurn demo_env demo_read demo_retry2 = Some (last (turn_trace demo_retry3))"
    unfolding demo_retry3_def
    by (rule completedTurn_last)
      (simp add: demo_retry3_fields [unfolded demo_retry3_def] demo_retry2_fields)
  note th = stuck_loop_forces_sleep [where env = demo_env and f = "''read_file''"
      and d = demo_db and client = demo_client
      and its = "[demo_read, demo_failure, demo_read, demo_read]" and extra = "[demo_two]"
      and it = demo_read and st = demo_retry2 and t = "last (turn_trace demo_retry3)",
      unfolded demo_retry3_session, folded demo_retry3_def]
  from th c demo_retry3_fields demo_retry3_session show ?thesis
    by simp
qed

text \<open>
  The synthetic turns of the bootstrap phase do not count: when the model asks twice for
  the command of the third bootstrap step (the first request is executed, the second is
  answered by the duplicate guard), the last three of the five stored turns each have
  exactly one result with the same fingerprint, two of them being turns of the main loop;
  yet the counter is 2, the loop is running and no deadline is stored. A third request is
  then processed, and the session ends with four such turns in a row.
\<close>

theorem stuck_loop_bootstrap_counterexample:
  "runAgentLoop demo_env demo_db demo_client [demo_again, demo_again] = demo_again2 \<and>
   length (db_turns (database demo_again2)) = 5 \<and>
   trailing_matches demo_env demo_probe_fp (db_turns (database demo_again2)) = 3 \<and>
   trailing_matches demo_env demo_probe_fp (turn_trace demo_again2) = 2 \<and>
   running demo_again2 \<and>
   consecutiveSameTool demo_again2 = 2 \<and>
   agent_state (database demo_again2) = Running \<and>
   kv_sleep_until (database demo_again2) = None \<and>
   runAgentLoop demo_env demo_db demo_client [demo_again, demo_again, demo_again]
     = demo_again3 \<and>
   length (db_turns (database demo_again3)) = 6 \<and>
   trailing_matches demo_env demo_probe_fp (db_turns (database demo_again3)) = 4"
  by (simp add: runAgentLoop_def demo_start_def [symmetric] demo_start_fields
      demo_again1_def [symmetric] demo_again1_fields demo_again2_def [symmetric]
      demo_again2_fields demo_again3_def [symmetric] demo_again3_fields)

subsection \<open>The once-per-wake guard\<close>

text \<open>
  C6. In every wake session (the bootstrap phase followed by any finite number of passes)
  each tool of the once-per-wake set is executed at most once, and a tool of the set that
  has been executed is marked as called. A call to a marked tool of the set is answered with
  the blocked result, of duration 0 and with the identifier and name of the call; the
  executor is not invoked and the state is returned as it was, the result being appended to
  the results of the turn and the call counted. Every call that is handled keeps the marks
  made so far, leaves a tool of the set marked, and preserves the invariant.
\<close>

theorem once_per_wake_guard:
  "(\<forall>n \<in> ONCE_PER_WAKE_TOOLS.
      count_list (executed_names (runAgentLoop env d client its)) n \<le> 1 \<and>
      (n \<in> set (executed_names (runAgentLoop env d client its)) \<longrightarrow>
         n \<in> calledOnceTools (runAgentLoop env d client its))) \<and>
   (tc_name tc \<in> ONCE_PER_WAKE_TOOLS \<and> tc_name tc \<in> calledOnceTools st \<longrightarrow>
      handleToolCall env tc (st, rs, c)
        = Inr (st, rs @ [blockedOnce tc (parseArgs env (tc_arguments tc))], Suc c) \<and>
      tcr_durationMs (blockedOnce tc (parseArgs env (tc_arguments tc))) = 0 \<and>
      tcr_id (blockedOnce tc (parseArgs env (tc_arguments tc))) = tc_id tc \<and>
      tcr_name (blockedOnce tc (parseArgs env (tc_arguments tc))) = tc_name tc) \<and>
   (handleToolCall env tc (st, rs, c) = Inr (st', rs', c') \<longrightarrow>
      calledOnceTools st \<subseteq> calledOnceTools st' \<and>
      (tc_name tc \<in> ONCE_PER_WAKE_TOOLS \<longrightarrow> tc_name tc \<in> calledOnceTools st') \<and>
      (once_inv st \<longrightarrow> once_inv st'))"
proof -
  have "once_inv (runAgentLoop env d client its)"
    unfolding runAgentLoop_def by (rule mainLoop_once) (rule bootstrap_once)
  then have a: "\<forall>n \<in> ONCE_PER_WAKE_TOOLS.
      count_list (executed_names (runAgentLoop env d client its)) n \<le> 1 \<and>
      (n \<in> set (executed_names (runAgentLoop env d client its)) \<longrightarrow>
         n \<in> calledOnceTools (runAgentLoop env d client its))"
    by (simp add: once_inv_def)
  have b: "tcr_durationMs (blockedOnce tc (parseArgs env (tc_arguments tc))) = 0 \<and>
      tcr_id (blockedOnce tc (parseArgs env (tc_arguments tc))) = tc_id tc \<and>
      tcr_name (blockedOnce tc (parseArgs env (tc_arguments tc))) = tc_name tc"
    by (simp add: blockedOnce_def)
  have c: "handleToolCall env tc (st, rs, c)
        = Inr (st, rs @ [blockedOnce tc (parseArgs env (tc_arguments tc))], Suc c)"
    if "tc_name tc \<in> ONCE_PER_WAKE_TOOLS \<and> tc_name tc \<in> calledOnceTools st"
    using that by (simp add: handleToolCall_blockedOnce)
  have d: "calledOnceTools st \<subseteq> calledOnceTools st' \<and>
      (tc_name tc \<in> ONCE_PER_WAKE_TOOLS \<longrightarrow> tc_name tc \<in> calledOnceTools st') \<and>
      (once_inv st \<longrightarrow> once_inv st')"
    if h: "handleToolCall env tc (st, rs, c) = Inr (st', rs', c')"
    using handleToolCall_marks [OF h] handleToolCall_once [OF _ h] by simp
  show ?thesis
    apply (intro conjI impI)
    using a apply simp
    using c apply simp
    using b apply simp
    using b apply simp
    using b apply simp
    using d apply simp
    using d apply simp
    using d apply simp
    done
qed

text \<open>
  A turn that asks for \<open>check_economics\<close> (run in the bootstrap phase) and twice for
  \<open>check_health\<close>: only the first \<open>check_health\<close> is executed.
\<close>

theorem once_per_wake_guard_witness:
  "''check_health'' \<in> ONCE_PER_WAKE_TOOLS \<and>
   executed_names (runAgentLoop demo_env demo_db demo_client [demo_status])
     = [''check_economics'', ''exec'', ''exec'', ''check_health''] \<and>
   count_list (executed_names (runAgentLoop demo_env demo_db demo_client [demo_status]))
     ''check_health'' \<le> 1 \<and>
   ''check_health'' \<in> calledOnceTools (runAgentLoop demo_env demo_db demo_client [demo_status]) \<and>
   map tcr_durationMs (toolCalls (last (turn_trace demo_checked))) = [0, 1, 0] \<and>
   tc_name (demo_call ''check_economics'' ''{}'') \<in> ONCE_PER_WAKE_TOOLS \<and>
   tc_name (demo_call ''check_economics'' ''{}'') \<in> calledOnceTools demo_start \<and>
   handleToolCall demo_env (demo_call ''check_economics'' ''{}'') (demo_start, [], 0)
     = Inr (demo_start, [blockedOnce (demo_call ''check_economics'' ''{}'') (JObj [])], 1) \<and>
   tcr_durationMs (blockedOnce (demo_call ''check_economics'' ''{}'') (JObj [])) = 0 \<and>
   handleToolCall demo_env (demo_call ''check_health'' ''{}'') (demo_start, [], 0)
     = Inr demo_health \<and>
   once_inv demo_start \<and>
   tc_name (demo_call ''check_health'' ''{}'') \<in> calledOnceTools (fst demo_health) \<and>
   once_inv (fst demo_health)"
proof -
  have o: "tc_name (demo_call ''check_economics'' ''{}'') \<in> ONCE_PER_WAKE_TOOLS"
    "tc_name (demo_call ''check_economics'' ''{}'') \<in> calledOnceTools demo_start"
    "parseArgs demo_env (tc_arguments (demo_call ''check_economics'' ''{}'')) = JObj []"
    "''check_health'' \<in> ONCE_PER_WAKE_TOOLS"
    "tc_name (demo_call ''check_health'' ''{}'') = ''check_health''"
    by (simp_all add: demo_call_def ONCE_PER_WAKE_TOOLS_def demo_start_fields parseArgs_def
        demo_env_def demo_parse_def)
  have h: "handleToolCall demo_env (demo_call ''check_health'' ''{}'') (demo_start, [], 0)
     = Inr (fst demo_health, fst (snd demo_health), snd (snd demo_health))"
    by (simp add: handleToolCall_def demo_health_def demo_call_def ONCE_PER_WAKE_TOOLS_def
        demo_start_fields parseArgs_def demo_env_def demo_parse_def Let_def)
  have i: "once_inv demo_start"
    unfolding demo_start_def by (rule bootstrap_once)
  from once_per_wake_guard [where env = demo_env and d = demo_db and client = demo_client
      and its = "[demo_status]" and tc = "demo_call ''check_economics'' ''{}''"
      and st = demo_start and rs = "[]" and c = 0]
    once_per_wake_guard [where env = demo_env and tc = "demo_call ''check_health'' ''{}''"
      and st = demo_start and rs = "[]" and c = 0 and st' = "fst demo_health"
      and rs' = "fst (snd demo_health)" and c' = "snd (snd demo_health)"]
    o h i demo_checked_fields [unfolded demo_checked_def]
  show ?thesis
    by (simp add: demo_checked_def)
qed

subsection \<open>Consecutive errors\<close>

text \<open>
  C8. A pass whose \<open>try\<close> block throws increments \<open>consecutiveErrors\<close>; when the counter
  reaches 5 the session ends with the agent state \<open>sleeping\<close> and the deadline of the time
  of the pass plus 300000 milliseconds, and below 5 the loop goes on. A pass that does not
  throw and after which the loop is still running has the counter at 0, and so has every
  pass that completes its turn without meeting the stuck-loop rule, a sleep request or the
  turn cap (the idle rule included).
\<close>

theorem consecutive_errors:
  "(tryBody env it st = Inl (e, st1) \<longrightarrow>
      consecutiveErrors (iteration env it st) = consecutiveErrors st + 1 \<and>
      (if consecutiveErrors st + 1 \<ge> 5
       then \<not> running (iteration env it st) \<and>
            agent_state (database (iteration env it st)) = Sleeping \<and>
            kv_sleep_until (database (iteration env it st)) = Some (it_now it + 300000)
       else running (iteration env it st) = running st)) \<and>
   (tryBody env it st = Inr st2 \<and> running st2 \<longrightarrow>
      iteration env it st = st2 \<and> consecutiveErrors st2 = 0) \<and>
   (completedTurn env it st = Some t \<and> consecutiveSameTool (iteration env it st) < 3 \<and>
    \<not> sleepRequested t \<and> turnsThisWake (iteration env it st) < 20 \<longrightarrow>
      consecutiveErrors (iteration env it st) = 0)"
proof -
  have a: "consecutiveErrors (iteration env it st) = consecutiveErrors st + 1 \<and>
      (if consecutiveErrors st + 1 \<ge> 5
       then \<not> running (iteration env it st) \<and>
            agent_state (database (iteration env it st)) = Sleeping \<and>
            kv_sleep_until (database (iteration env it st)) = Some (it_now it + 300000)
       else running (iteration env it st) = running st)"
    if t: "tryBody env it st = Inl (e, st1)"
  proof (cases rule: iteration_cases [of env it st])
    case (break s)
    with t show ?thesis by (simp add: tryBody_def)
  next
    case (thrown e' s)
    with t have "s = st1" by simp
    with thrown show ?thesis
      by (simp add: same_locals_def catchError_def Let_def MAX_CONSECUTIVE_ERRORS_def)
  next
    case (turn s response s2 results)
    with t show ?thesis by simp
  qed
  have b: "iteration env it st = st2 \<and> consecutiveErrors st2 = 0"
    if t: "tryBody env it st = Inr st2" and r: "running st2"
  proof (cases rule: iteration_cases [of env it st])
    case (break s)
    from t have "iteration env it st = st2" by (simp add: iteration_def)
    with break beforeInference_Break [OF break(1)] r show ?thesis by simp
  next
    case (thrown e' s)
    with t show ?thesis by simp
  next
    case (turn s response s2 results)
    from t have i: "iteration env it st = st2" by (simp add: iteration_def)
    with turn(6) r show ?thesis
      by (auto simp: decideSleep_def split: if_splits)
  qed
  have c: "consecutiveErrors (iteration env it st) = 0"
    if "completedTurn env it st = Some t \<and> consecutiveSameTool (iteration env it st) < 3 \<and>
        \<not> sleepRequested t \<and> turnsThisWake (iteration env it st) < 20"
    using that iteration_reset [of env it st t] by (simp add: MAX_TURNS_PER_WAKE_def)
  from a b c show ?thesis by blast
qed

text \<open>
  A failing backend right after the bootstrap phase, a fifth failure in a row, and a
  successful turn after one failure.
\<close>

theorem consecutive_errors_witness:
  "tryBody demo_env demo_failure demo_start = Inl (''Inference error'', demo_start) \<and>
   consecutiveErrors demo_start = 0 \<and>
   consecutiveErrors (iteration demo_env demo_failure demo_start) = 1 \<and>
   running (iteration demo_env demo_failure demo_start) \<and>
   tryBody demo_env demo_failure demo_fail4 = Inl (''Inference error'', demo_fail4) \<and>
   consecutiveErrors demo_fail4 = 4 \<and>
   consecutiveErrors (iteration demo_env demo_failure demo_fail4) = 5 \<and>
   \<not> running (iteration demo_env demo_failure demo_fail4) \<and>
   agent_state (database (iteration demo_env demo_failure demo_fail4)) = Sleeping \<and>
   kv_sleep_until (database (iteration demo_env demo_failure demo_fail4)) = Some 302000 \<and>
   tryBody demo_env demo_read demo_fail1 = Inr demo_recovered \<and>
   running demo_recovered \<and>
   consecutiveErrors demo_fail1 = 1 \<and>
   consecutiveErrors demo_recovered = 0 \<and>
   completedTurn demo_env demo_read demo_fail1 = Some (last (turn_trace demo_recovered)) \<and>
   consecutiveSameTool demo_recovered < 3 \<and>
   \<not> sleepRequested (last (turn_trace demo_recovered)) \<and>
   turnsThisWake demo_recovered < 20"
proof -
  have h: "completedTurn demo_env demo_read demo_fail1 = Some (last (turn_trace demo_recovered))"
    unfolding demo_recovered_def
    by (rule completedTurn_last)
      (simp add: demo_recovered_fields [unfolded demo_recovered_def] demo_fail1_fields)
  have a: "tryBody demo_env demo_failure demo_start = Inl (''Inference error'', demo_start)"
    by (simp add: demo_failure_pass demo_start_fields)
  have b: "tryBody demo_env demo_failure demo_fail4 = Inl (''Inference error'', demo_fail4)"
    by (simp add: demo_failure_pass demo_fail4_fields)
  have now: "it_now demo_failure = 2000"
    by (simp add: demo_failure_def)
  from consecutive_errors [of demo_env demo_failure demo_start "''Inference error''" demo_start]
    consecutive_errors [of demo_env demo_failure demo_fail4 "''Inference error''" demo_fail4]
    consecutive_errors [of demo_env demo_read demo_fail1 _ _ demo_recovered
      "last (turn_trace demo_recovered)"]
    a b h now demo_start_fields demo_fail4_fields demo_fail1_fields demo_recovered_fields
  show ?thesis by (simp add: demo_recovered_def [symmetric])
qed

subsection \<open>The cap on tool calls\<close>

text \<open>
  C9. The results of a turn number the requested calls, but at most 10; the outcome of
  the loop over the calls is the outcome on the first 10 calls alone, so later calls are
  neither examined nor executed; and a blocked call, of either guard, appends its result
  and counts as one call.
\<close>

theorem tool_call_cap:
  "(executeToolCalls env response st = Inr (st', results) \<longrightarrow>
      length results = min 10 (length (requested response))) \<and>
   (completedTurn env it st = Some t \<longrightarrow> length (toolCalls t) \<le> 10) \<and>
   executeToolCalls env (response\<lparr> resp_toolCalls := Some tcs \<rparr>) st
     = executeToolCalls env (response\<lparr> resp_toolCalls := Some (take 10 tcs) \<rparr>) st \<and>
   (tc_name tc \<in> ONCE_PER_WAKE_TOOLS \<and> tc_name tc \<in> calledOnceTools st \<longrightarrow>
      handleToolCall env tc (st, rs, c)
        = Inr (st, rs @ [blockedOnce tc (parseArgs env (tc_arguments tc))], Suc c)) \<and>
   (tc_name tc = ''exec'' \<and> get_command (parseArgs env (tc_arguments tc)) = Inr command \<and>
    truthy_opt command \<and> String_trim env (String_js env command) \<in> executedCommands st \<longrightarrow>
      handleToolCall env tc (st, rs, c)
        = Inr (st, rs @ [blockedExec tc (parseArgs env (tc_arguments tc))
                           (String_trim env (String_js env command))], Suc c))"
proof -
  have a: "length results = min 10 (length (requested response))"
    if "executeToolCalls env response st = Inr (st', results)"
    using executeToolCalls_Inr [OF that] by (simp add: MAX_TOOL_CALLS_PER_TURN_def)
  have b: "length (toolCalls t) \<le> 10" if "completedTurn env it st = Some t"
  proof -
    from that obtain st1 r st2 where "executeToolCalls env r st1 = Inr (st2, toolCalls t)"
      by (rule completedTurn_cases)
    from executeToolCalls_Inr [OF this] show ?thesis
      by (simp add: MAX_TOOL_CALLS_PER_TURN_def)
  qed
  have c: "executeToolCalls env (response\<lparr> resp_toolCalls := Some tcs \<rparr>) st
     = executeToolCalls env (response\<lparr> resp_toolCalls := Some (take 10 tcs) \<rparr>) st"
    using executeToolCalls_take [where env = env and response = response and tcs = tcs and st = st]
    by (simp only: MAX_TOOL_CALLS_PER_TURN_def)
  from a b c handleToolCall_blockedOnce [of tc st env rs c]
    handleToolCall_blockedExec [of tc env command st rs c]
  show ?thesis by blast
qed

text \<open>
  Twelve requested calls, ten of \<open>check_economics\<close> (blocked after the bootstrap phase)
  and two of \<open>read_file\<close>: the turn holds the ten blocked results and nothing is executed.
\<close>

theorem tool_call_cap_witness:
  "executeToolCalls demo_env (demo_response demo_twelve ''tool_calls'') demo_start =
     Inr (demo_start, [demo_blocked, demo_blocked, demo_blocked, demo_blocked, demo_blocked,
                       demo_blocked, demo_blocked, demo_blocked, demo_blocked, demo_blocked]) \<and>
   length (requested (demo_response demo_twelve ''tool_calls'')) = 12 \<and>
   completedTurn demo_env (demo_iteration demo_twelve ''tool_calls'') demo_start
     = Some (last (turn_trace demo_flood)) \<and>
   length (toolCalls (last (turn_trace demo_flood))) = 10 \<and>
   exec_trace demo_flood = exec_trace demo_start \<and>
   executeToolCalls demo_env (demo_response demo_twelve ''tool_calls'') demo_start
     = executeToolCalls demo_env (demo_response (take 10 demo_twelve) ''tool_calls'') demo_start \<and>
   tc_name (demo_call ''check_economics'' ''{}'') \<in> ONCE_PER_WAKE_TOOLS \<and>
   tc_name (demo_call ''check_economics'' ''{}'') \<in> calledOnceTools demo_start \<and>
   handleToolCall demo_env (demo_call ''check_economics'' ''{}'') (demo_start, [], 0)
     = Inr (demo_start, [demo_blocked], 1) \<and>
   tc_name demo_ls = ''exec'' \<and>
   String_trim demo_env (String_js demo_env (Some (JStr ''ls''))) \<in> executedCommands demo_ls1 \<and>
   handleToolCall demo_env demo_ls (demo_ls1, [], 0)
     = Inr (demo_ls1, [blockedExec demo_ls (JObj [(''command'', JStr ''ls'')]) ''ls''], 1)"
proof -
  have h: "completedTurn demo_env (demo_iteration demo_twelve ''tool_calls'') demo_start
     = Some (last (turn_trace demo_flood))"
    unfolding demo_flood_def
    by (rule completedTurn_last)
      (simp add: demo_flood_fields [unfolded demo_flood_def] demo_start_fields)
  have r: "length (requested (demo_response demo_twelve ''tool_calls'')) = 12"
    by (simp add: requested_def demo_response_def demo_twelve_def)
  have u: "(demo_response demo_twelve ''tool_calls'')\<lparr> resp_toolCalls := Some tcs \<rparr>
      = demo_response tcs ''tool_calls''" for tcs
    by (simp add: demo_response_def)
  have o: "tc_name (demo_call ''check_economics'' ''{}'') \<in> ONCE_PER_WAKE_TOOLS"
    "tc_name (demo_call ''check_economics'' ''{}'') \<in> calledOnceTools demo_start"
    "parseArgs demo_env (tc_arguments (demo_call ''check_economics'' ''{}'')) = JObj []"
    by (simp_all add: demo_call_def ONCE_PER_WAKE_TOOLS_def demo_start_fields parseArgs_def
        demo_env_def demo_parse_def)
  have e: "tc_name demo_ls = ''exec''" "truthy_opt (Some (JStr ''ls''))"
    by (simp_all add: demo_ls_def demo_call_def truthy_opt_def)
  from tool_call_cap [where env = demo_env
      and response = "demo_response demo_twelve ''tool_calls''" and st = demo_start
      and st' = demo_start
      and results = "[demo_blocked, demo_blocked, demo_blocked, demo_blocked, demo_blocked,
                      demo_blocked, demo_blocked, demo_blocked, demo_blocked, demo_blocked]"
      and it = "demo_iteration demo_twelve ''tool_calls''"
      and t = "last (turn_trace demo_flood)" and tcs = demo_twelve
      and tc = "demo_call ''check_economics'' ''{}''" and rs = "[]" and c = 0]
    tool_call_cap [where env = demo_env and st = demo_ls1 and tc = demo_ls
      and command = "Some (JStr ''ls'')" and rs = "[]" and c = 0]
    demo_twelve_blocked h r o e demo_flood_fields demo_ls1_fields
  show ?thesis
    by (simp add: u demo_blocked_def)
qed

subsection \<open>The cap on turns\<close>

text \<open>
  C10. The three bootstrap turns count towards \<open>turnsThisWake\<close>, which after the
  bootstrap phase is 3 and afterwards 3 plus the number of turns of the main loop. Hence
  in every wake session the main loop completes at most 17 turns, and when it has completed
  17 the session has ended with the agent state \<open>sleeping\<close>. In general, a main loop
  entered with the counter at \<open>k\<close> below 20 completes at most \<open>20 - k\<close> turns.
\<close>

theorem turn_cap_after_bootstrap:
  "turnsThisWake (bootstrap env (initLoop env d client)) = 3 \<and>
   turnsThisWake (runAgentLoop env d client its)
     = 3 + length (turn_trace (runAgentLoop env d client its)) \<and>
   length (turn_trace (runAgentLoop env d client its)) \<le> 17 \<and>
   (length (turn_trace (runAgentLoop env d client its)) = 17 \<longrightarrow>
      \<not> running (runAgentLoop env d client its) \<and>
      agent_state (database (runAgentLoop env d client its)) = Sleeping) \<and>
   (turn_trace st = [] \<and> turnsThisWake st < 20 \<longrightarrow>
      length (turn_trace (mainLoop env its st)) \<le> 20 - turnsThisWake st \<and>
      (length (turn_trace (mainLoop env its st)) = 20 - turnsThisWake st \<longrightarrow>
         \<not> running (mainLoop env its st) \<and>
         agent_state (database (mainLoop env its st)) = Sleeping))"
proof -
  have "turn_inv 3 (bootstrap env (initLoop env d client))"
    by (simp add: turn_inv_def bootstrap_locals MAX_TURNS_PER_WAKE_def)
  then have "turn_inv 3 (runAgentLoop env d client its)"
    unfolding runAgentLoop_def by (rule turn_inv_mainLoop)
  then have a: "turnsThisWake (runAgentLoop env d client its)
     = 3 + length (turn_trace (runAgentLoop env d client its)) \<and>
   length (turn_trace (runAgentLoop env d client its)) \<le> 17 \<and>
   (length (turn_trace (runAgentLoop env d client its)) = 17 \<longrightarrow>
      \<not> running (runAgentLoop env d client its) \<and>
      agent_state (database (runAgentLoop env d client its)) = Sleeping)"
    by (auto simp: turn_inv_def MAX_TURNS_PER_WAKE_def)
  have b: "length (turn_trace (mainLoop env its st)) \<le> 20 - turnsThisWake st \<and>
      (length (turn_trace (mainLoop env its st)) = 20 - turnsThisWake st \<longrightarrow>
         \<not> running (mainLoop env its st) \<and>
         agent_state (database (mainLoop env its st)) = Sleeping)"
    if h: "turn_trace st = [] \<and> turnsThisWake st < 20"
  proof -
    from h have "turn_inv (turnsThisWake st) st"
      by (simp add: turn_inv_def MAX_TURNS_PER_WAKE_def)
    then have "turn_inv (turnsThisWake st) (mainLoop env its st)"
      by (rule turn_inv_mainLoop)
    with h show ?thesis
      by (auto simp: turn_inv_def MAX_TURNS_PER_WAKE_def)
  qed
  from a b bootstrap_locals(1) [of env d client] show ?thesis by blast
qed

text \<open>Seventeen turns with two calls each reach the cap; thirty observations give no more.\<close>

theorem turn_cap_after_bootstrap_witness:
  "turnsThisWake (bootstrap demo_env (initLoop demo_env demo_db demo_client)) = 3 \<and>
   length (turn_trace (runAgentLoop demo_env demo_db demo_client (replicate 17 demo_two))) = 17 \<and>
   turnsThisWake (runAgentLoop demo_env demo_db demo_client (replicate 17 demo_two)) = 20 \<and>
   \<not> running (runAgentLoop demo_env demo_db demo_client (replicate 17 demo_two)) \<and>
   agent_state (database (runAgentLoop demo_env demo_db demo_client (replicate 17 demo_two)))
     = Sleeping \<and>
   length (turn_trace (runAgentLoop demo_env demo_db demo_client (replicate 30 demo_two))) \<le> 17 \<and>
   turn_trace demo_start = [] \<and> turnsThisWake demo_start < 20 \<and>
   length (turn_trace (mainLoop demo_env (replicate 17 demo_two) demo_start))
     = 20 - turnsThisWake demo_start \<and>
   \<not> running (mainLoop demo_env (replicate 17 demo_two) demo_start)"
proof -
  have m: "mainLoop demo_env (replicate 17 demo_two) demo_start = demo_full"
    by (simp add: demo_full_def runAgentLoop_def demo_start_def)
  from turn_cap_after_bootstrap [of demo_env demo_db demo_client "replicate 17 demo_two"
      demo_start]
    turn_cap_after_bootstrap [of demo_env demo_db demo_client "replicate 30 demo_two"]
    demo_full_fields [unfolded demo_full_def] demo_full_fields m demo_start_fields
  show ?thesis by simp
qed

section \<open>Properties of the Anthropic translation\<close>

lemma transformLoop_map:
  "snd (transformLoop parse msgs sys out) =
     out @ map (translateMessage parse) (filter (\<lambda>m. msg_role m \<noteq> RoleSystem) msgs)"
  by (induction msgs arbitrary: sys out) (simp_all add: translateMessage_def)

lemma transformMessages_map:
  "snd (transformMessagesForAnthropic parse msgs) =
     map (translateMessage parse) (filter (\<lambda>m. msg_role m \<noteq> RoleSystem) msgs)"
  using transformLoop_map [of parse msgs "[]" "[]"]
  by (cases "transformLoop parse msgs [] []") (simp add: transformMessagesForAnthropic_def)

lemma parseToolArguments_object:
  "parse raw = Some (JObj kvs) \<Longrightarrow> parseToolArguments parse raw = JObj kvs"
  by (simp add: parseToolArguments_def)

lemma assistantContent_tool_use:
  assumes "msg_tool_calls msg = Some tcs" "tc \<in> set tcs"
  shows "toolUseBlock parse tc \<in> set (assistantContent parse msg)"
  using assms by (auto simp: assistantContent_def Let_def)

lemma normalize_tool_use:
  assumes "ToolUseBlock i n inp \<in> set (ar_content data)"
  shows "\<exists>r calls. normalizeAnthropicResponse trim stringify data = Inr r \<and>
           resp_toolCalls r = Some calls \<and>
           \<lparr> tc_id = i, tc_name = n,
             tc_arguments = stringify (if truthy inp then inp else JObj []) \<rparr> \<in> set calls"
proof -
  from assms have m: "ToolUseBlock i n inp \<in> set (filter isToolUse (ar_content data))"
    by simp
  then have ne: "filter isToolUse (ar_content data) \<noteq> []"
    by (metis empty_iff empty_set)
  from m have "toolCallOfBlock stringify (ToolUseBlock i n inp)
      \<in> set (map (toolCallOfBlock stringify) (filter isToolUse (ar_content data)))"
    by (simp only: set_map) (rule imageI)
  with ne show ?thesis
    by (simp add: normalizeAnthropicResponse_def Let_def)
qed

lemma translateMessage_tool:
  "msg_role reply = RoleTool \<Longrightarrow> msg_tool_call_id reply = Some i \<Longrightarrow> i \<noteq> [] \<Longrightarrow>
   translateMessage parse reply =
     \<lparr> am_role = ''user'', am_content = BlockContent [ToolResultBlock i (msg_content reply)] \<rparr>"
  by (simp add: translateMessage_def toolResultContent_def)

lemma demo_translation:
  "transformMessagesForAnthropic demo_parse demo_messages =
     (Some ''You are an agent.'',
      [\<lparr> am_role = ''user'', am_content = PlainContent ''List the files.'' \<rparr>,
       \<lparr> am_role = ''assistant'',
         am_content = BlockContent
           [ToolUseBlock ''call_1'' ''exec'' (JObj [(''command'', JStr ''ls'')])] \<rparr>,
       \<lparr> am_role = ''user'',
         am_content = BlockContent [ToolResultBlock ''call_1'' ''a.txt''] \<rparr>])"
  by (simp add: transformMessagesForAnthropic_def demo_messages_def demo_assistant_def
      demo_reply_def assistantContent_def toolUseBlock_def parseToolArguments_def demo_ls_def demo_call_def
      demo_parse_def toolResultContent_def Let_def)

lemma demo_normalized:
  "normalizeAnthropicResponse demo_trim demo_stringify demo_answer =
     Inr \<lparr> resp_content = [],
           resp_toolCalls = Some [\<lparr> tc_id = ''call_1'', tc_name = ''exec'',
                                    tc_arguments = ''{\"command\":\"ls\"}'' \<rparr>],
           resp_usage = \<lparr> promptTokens = 10, completionTokens = 5, totalTokens = 15 \<rparr>,
           resp_finishReason = ''tool_calls'',
           resp_costCents = None \<rparr>"
  by (simp add: normalizeAnthropicResponse_def demo_answer_def demo_assistant_def
      assistantContent_def toolUseBlock_def parseToolArguments_def demo_ls_def demo_call_def
      demo_parse_def demo_stringify_def normalizeAnthropicFinishReason_def demo_trim_def Let_def)

text \<open>
  C7. Let a message list contain an assistant message with a tool call whose arguments
  parse to an object, and let \<open>JSON.parse\<close> undo \<open>JSON.stringify\<close> on that object. Then
  the translation keeps the messages other than system messages in their order; the
  assistant message becomes a block array holding a tool-use block with the identifier and
  name of the call and the object as input; normalizing a response that carries these
  blocks yields a tool call with the same identifier and name whose arguments parse to the
  object; and a tool-result message that answers the call becomes a user message with one
  tool-result block referring to the call.
\<close>

theorem anthropic_round_trip:
  assumes "msg \<in> set messages" and "msg_role msg = RoleAssistant"
    and "msg_tool_calls msg = Some tcs" and "tc \<in> set tcs"
    and "parse (tc_arguments tc) = Some (JObj kvs)"
    and "parse (stringify (JObj kvs)) = Some (JObj kvs)"
    and "ar_content data = assistantContent parse msg"
  shows "snd (transformMessagesForAnthropic parse messages)
           = map (translateMessage parse) (filter (\<lambda>m. msg_role m \<noteq> RoleSystem) messages) \<and>
         translateMessage parse msg
           = \<lparr> am_role = ''assistant'',
               am_content = BlockContent (assistantContent parse msg) \<rparr> \<and>
         translateMessage parse msg \<in> set (snd (transformMessagesForAnthropic parse messages)) \<and>
         ToolUseBlock (tc_id tc) (tc_name tc) (JObj kvs) \<in> set (assistantContent parse msg) \<and>
         (\<exists>r calls c. normalizeAnthropicResponse trim stringify data = Inr r \<and>
            resp_toolCalls r = Some calls \<and> c \<in> set calls \<and>
            tc_id c = tc_id tc \<and> tc_name c = tc_name tc \<and>
            parse (tc_arguments c) = Some (JObj kvs)) \<and>
         (reply \<in> set messages \<and> msg_role reply = RoleTool \<and>
          msg_tool_call_id reply = Some (tc_id tc) \<and> tc_id tc \<noteq> [] \<longrightarrow>
            \<lparr> am_role = ''user'',
              am_content = BlockContent [ToolResultBlock (tc_id tc) (msg_content reply)] \<rparr>
              \<in> set (snd (transformMessagesForAnthropic parse messages)))"
proof -
  note m = transformMessages_map [of parse messages]
  from assms(1,2) have a: "translateMessage parse msg
      \<in> set (snd (transformMessagesForAnthropic parse messages))"
    by (simp add: m)
  from assms(2) have t: "translateMessage parse msg =
      \<lparr> am_role = ''assistant'', am_content = BlockContent (assistantContent parse msg) \<rparr>"
    by (simp add: translateMessage_def)
  from assistantContent_tool_use [OF assms(3,4), of parse] assms(5)
  have b: "ToolUseBlock (tc_id tc) (tc_name tc) (JObj kvs) \<in> set (assistantContent parse msg)"
    by (simp add: toolUseBlock_def parseToolArguments_object)
  with assms(7) have "ToolUseBlock (tc_id tc) (tc_name tc) (JObj kvs) \<in> set (ar_content data)"
    by simp
  from normalize_tool_use [OF this, of trim stringify] obtain r calls where
    n: "normalizeAnthropicResponse trim stringify data = Inr r" "resp_toolCalls r = Some calls"
      "\<lparr> tc_id = tc_id tc, tc_name = tc_name tc, tc_arguments = stringify (JObj kvs) \<rparr>
         \<in> set calls"
    by auto
  define c where "c = \<lparr> tc_id = tc_id tc, tc_name = tc_name tc,
      tc_arguments = stringify (JObj kvs) \<rparr>"
  from n assms(6) have "normalizeAnthropicResponse trim stringify data = Inr r \<and>
      resp_toolCalls r = Some calls \<and> c \<in> set calls \<and>
      tc_id c = tc_id tc \<and> tc_name c = tc_name tc \<and>
      parse (tc_arguments c) = Some (JObj kvs)"
    by (simp add: c_def)
  then have e: "\<exists>r calls c. normalizeAnthropicResponse trim stringify data = Inr r \<and>
      resp_toolCalls r = Some calls \<and> c \<in> set calls \<and>
      tc_id c = tc_id tc \<and> tc_name c = tc_name tc \<and>
      parse (tc_arguments c) = Some (JObj kvs)"
    by blast
  have d: "\<lparr> am_role = ''user'',
        am_content = BlockContent [ToolResultBlock (tc_id tc) (msg_content reply)] \<rparr>
      \<in> set (snd (transformMessagesForAnthropic parse messages))"
    if "reply \<in> set messages \<and> msg_role reply = RoleTool \<and>
        msg_tool_call_id reply = Some (tc_id tc) \<and> tc_id tc \<noteq> []"
  proof -
    from that have "translateMessage parse reply
        \<in> set (snd (transformMessagesForAnthropic parse messages))"
      by (simp add: m)
    with that translateMessage_tool [of reply "tc_id tc" parse] show ?thesis by simp
  qed
  from m a t b e d show ?thesis by blast
qed

text \<open>A system prompt, a user message, a call of \<open>exec\<close> and its result.\<close>

theorem anthropic_round_trip_witness:
  "demo_assistant \<in> set demo_messages \<and>
   msg_role demo_assistant = RoleAssistant \<and>
   msg_tool_calls demo_assistant = Some [demo_ls] \<and>
   demo_parse (tc_arguments demo_ls) = Some (JObj [(''command'', JStr ''ls'')]) \<and>
   demo_parse (demo_stringify (JObj [(''command'', JStr ''ls'')]))
     = Some (JObj [(''command'', JStr ''ls'')]) \<and>
   ar_content demo_answer = assistantContent demo_parse demo_assistant \<and>
   demo_reply \<in> set demo_messages \<and> msg_role demo_reply = RoleTool \<and>
   msg_tool_call_id demo_reply = Some (tc_id demo_ls) \<and> tc_id demo_ls \<noteq> [] \<and>
   translateMessage demo_parse demo_assistant
     \<in> set (snd (transformMessagesForAnthropic demo_parse demo_messages)) \<and>
   ToolUseBlock (tc_id demo_ls) (tc_name demo_ls) (JObj [(''command'', JStr ''ls'')])
     \<in> set (assistantContent demo_parse demo_assistant) \<and>
   (\<exists>r calls c. normalizeAnthropicResponse demo_trim demo_stringify demo_answer = Inr r \<and>
      resp_toolCalls r = Some calls \<and> c \<in> set calls \<and>
      tc_id c = tc_id demo_ls \<and> tc_name c = tc_name demo_ls \<and>
      demo_parse (tc_arguments c) = Some (JObj [(''command'', JStr ''ls'')])) \<and>
   \<lparr> am_role = ''user'',
     am_content = BlockContent [ToolResultBlock (tc_id demo_ls) (msg_content demo_reply)] \<rparr>
     \<in> set (snd (transformMessagesForAnthropic demo_parse demo_messages))"
proof -
  have h1: "demo_assistant \<in> set demo_messages"
    by (simp add: demo_messages_def)
  have h2: "msg_role demo_assistant = RoleAssistant"
    and h3: "msg_tool_calls demo_assistant = Some [demo_ls]"
    by (simp_all add: demo_assistant_def)
  have h4: "demo_ls \<in> set [demo_ls]" by simp
  have h5: "demo_parse (tc_arguments demo_ls) = Some (JObj [(''command'', JStr ''ls'')])"
    by (simp add: demo_ls_def demo_call_def demo_parse_def)
  have h6: "demo_parse (demo_stringify (JObj [(''command'', JStr ''ls'')]))
     = Some (JObj [(''command'', JStr ''ls'')])"
    by (simp add: demo_stringify_def demo_parse_def)
  have h7: "ar_content demo_answer = assistantContent demo_parse demo_assistant"
    by (simp add: demo_answer_def)
  have h8: "demo_reply \<in> set demo_messages" "msg_role demo_reply = RoleTool"
    "msg_tool_call_id demo_reply = Some (tc_id demo_ls)" "tc_id demo_ls \<noteq> []"
    by (simp_all add: demo_messages_def demo_reply_def demo_ls_def demo_call_def)
  from anthropic_round_trip [where parse = demo_parse and stringify = demo_stringify
      and trim = demo_trim
      and reply = demo_reply, OF h1 h2 h3 h4 h5 h6 h7] h1 h2 h3 h5 h6 h7 h8
  show ?thesis by blast
qed

end
